theory Spec2Isabelle
  imports Main "HOL-Library.Word"
begin

unbundle bit_operations_syntax

section \<open>The BLE IPSP Router application (BLE\_IPSP\_Router.cydsn/main.c)\<close>

text \<open>
  This theory embeds the router's \<^verbatim>\<open>main.c\<close>: the advertisement filter
  \<^verbatim>\<open>CheckAdvPacketForServiceUuid\<close>, the event callback \<^verbatim>\<open>AppCallback\<close> and the
  command part of the loop in \<^verbatim>\<open>main\<close>. Globals are a record that every operation
  takes and returns; the calls into the BLE component and the debug lines are returned
  as a list of outputs, in program order. What the BLE component hands to the
  application (its state, the connection handle, the result of an API call) is an
  input record.

  Pointers are modelled as views of the memory behind them: \<^verbatim>\<open>p[k]\<close> is \<open>p k\<close>. C does
  not know where the object behind a pointer ends, so a view is total; hardware access
  faults are not modelled. Arrays declared in \<^verbatim>\<open>main.c\<close> are lists.

  A debug line is the text of its format string with the values printed; calls of
  \<^verbatim>\<open>DBG_PRINTF\<close> that build one console line are one entry, and the sections under
  \<^verbatim>\<open>DEBUG_UART_FULL\<close> are left out. The low-power code of the loop
  (\<^verbatim>\<open>LowPowerImplementation\<close>, the LED timer, the storing of bonding data) touches no
  global of the application and is not modelled.
\<close>

type_synonym uint8 = "8 word"
type_synonym uint16 = "16 word"
type_synonym uint32 = "32 word"

subsection \<open>Declarations of the BLE component and of main.h\<close>

text \<open>
  The headers \<^verbatim>\<open>ble.h\<close> and \<^verbatim>\<open>main.h\<close> are not part of the sources. The Bluetooth
  assigned numbers below are fixed by the Bluetooth specification (AD types 0x02 and
  0x03 for the incomplete and the complete list of 16-bit service UUIDs, 0x1820 for the
  Internet Protocol Support Service, 0x0023 for the IPSP protocol multiplexer, six bytes
  for a device address).
\<close>

definition CYBLE_GAP_ADV_INCOMPL_16UUID :: uint8 where
  "CYBLE_GAP_ADV_INCOMPL_16UUID = 0x02"

definition CYBLE_GAP_ADV_COMPL_16UUID :: uint8 where
  "CYBLE_GAP_ADV_COMPL_16UUID = 0x03"

definition CYBLE_UUID_INTERNET_PROTOCOL_SUPPORT_SERVICE :: uint16 where
  "CYBLE_UUID_INTERNET_PROTOCOL_SUPPORT_SERVICE = 0x1820"

definition CYBLE_L2CAP_PSM_LE_PSM_IPSP :: uint16 where
  "CYBLE_L2CAP_PSM_LE_PSM_IPSP = 0x0023"

definition CYBLE_GAP_BD_ADDR_SIZE :: nat where
  "CYBLE_GAP_BD_ADDR_SIZE = 6"

definition CYBLE_ERROR_OK :: uint32 where
  "CYBLE_ERROR_OK = 0"

definition CYBLE_SCANNING_FAST :: uint8 where
  "CYBLE_SCANNING_FAST = 0"

text \<open>The state of the BLE component, as \<^verbatim>\<open>CyBle_GetState()\<close> returns it.\<close>

datatype CYBLE_STATE_T =
    CYBLE_STATE_STOPPED
  | CYBLE_STATE_INITIALIZING
  | CYBLE_STATE_CONNECTED
  | CYBLE_STATE_SCANNING
  | CYBLE_STATE_CONNECTING
  | CYBLE_STATE_DISCONNECTED

text \<open>
  The constants of \<^verbatim>\<open>main.h\<close> and of the component's configuration are parameters of
  the model: no theorem depends on their values.
\<close>

record config =
  CYBLE_MAX_ADV_DEVICES :: nat
  LE_DATA_CREDITS_IPSP :: uint16
  LE_WATER_MARK_IPSP :: uint16
  L2CAP_MAX_LEN :: uint16
  CYBLE_L2CAP_MTU :: uint16
  CYBLE_L2CAP_MPS :: uint16
  STATE_INIT :: uint8
  STATE_CONNECTING :: uint8

record CYBLE_GAP_BD_ADDR_T =
  bdAddr :: "uint8 list"
  type :: uint8

record CYBLE_GAPC_ADV_REPORT_T =
  eventType :: uint8
  peerAddrType :: uint8
  peerBdAddr :: "nat \<Rightarrow> uint8"
  dataLen :: uint8
  data :: "uint32 \<Rightarrow> uint8"
  rssi :: uint8

record CYBLE_L2CAP_CBFC_CONNECT_PARAM_T =
  mtu :: uint16
  mps :: uint16
  credit :: uint16

record CYBLE_L2CAP_CBFC_CONN_CNF_PARAM_T =
  cnf_bdHandle :: uint8
  lCid :: uint16
  response :: uint16
  connParam :: CYBLE_L2CAP_CBFC_CONNECT_PARAM_T

record CYBLE_L2CAP_CBFC_RX_PARAM_T =
  rx_lCid :: uint16
  rx_result :: uint16
  rxData :: "nat \<Rightarrow> uint8"
  rxDataLength :: uint16

record CYBLE_L2CAP_CBFC_LOW_RX_CREDIT_PARAM_T =
  low_lCid :: uint16
  low_credit :: uint16

record CYBLE_CONN_HANDLE_T =
  bdHandle :: uint8
  attId :: uint8

text \<open>The events of the callback's switch, each with the part of its parameter the code reads
  outside a debug line. Event codes without a case of their own are \<open>OTHER_EVENT\<close>.\<close>

datatype event =
    CYBLE_EVT_STACK_ON
  | CYBLE_EVT_TIMEOUT
  | CYBLE_EVT_HARDWARE_ERROR
  | CYBLE_EVT_HCI_STATUS
  | CYBLE_EVT_STACK_BUSY_STATUS
  | CYBLE_EVT_GAPC_SCAN_PROGRESS_RESULT CYBLE_GAPC_ADV_REPORT_T
  | CYBLE_EVT_GAPC_SCAN_START_STOP
  | CYBLE_EVT_GAP_AUTH_REQ
  | CYBLE_EVT_GAP_PASSKEY_ENTRY_REQUEST
  | CYBLE_EVT_GAP_PASSKEY_DISPLAY_REQUEST
  | CYBLE_EVT_GAP_KEYINFO_EXCHNGE_CMPLT
  | CYBLE_EVT_GAP_AUTH_COMPLETE
  | CYBLE_EVT_GAP_AUTH_FAILED
  | CYBLE_EVT_GAP_DEVICE_CONNECTED uint16
  | CYBLE_EVT_GAPC_CONNECTION_UPDATE_COMPLETE uint16
  | CYBLE_EVT_GAP_DEVICE_DISCONNECTED uint8
  | CYBLE_EVT_GAP_ENCRYPT_CHANGE
  | CYBLE_EVT_GATT_CONNECT_IND
  | CYBLE_EVT_GATT_DISCONNECT_IND
  | CYBLE_EVT_GATTC_ERROR_RSP
  | CYBLE_EVT_L2CAP_CBFC_CONN_CNF CYBLE_L2CAP_CBFC_CONN_CNF_PARAM_T
  | CYBLE_EVT_L2CAP_CBFC_DISCONN_IND uint16
  | CYBLE_EVT_L2CAP_CBFC_DATA_READ CYBLE_L2CAP_CBFC_RX_PARAM_T
  | CYBLE_EVT_L2CAP_CBFC_RX_CREDIT_IND CYBLE_L2CAP_CBFC_LOW_RX_CREDIT_PARAM_T
  | CYBLE_EVT_L2CAP_CBFC_TX_CREDIT_IND
  | CYBLE_EVT_L2CAP_CBFC_DATA_WRITE_IND
  | CYBLE_EVT_GATTC_CHAR_DUPLICATION
  | CYBLE_EVT_GATTC_DESCR_DUPLICATION
  | CYBLE_EVT_GATTC_SRVC_DUPLICATION
  | CYBLE_EVT_GATTC_SRVC_DISCOVERY_FAILED
  | CYBLE_EVT_GATTC_SRVC_DISCOVERY_COMPLETE
  | CYBLE_EVT_GATTC_INCL_DISCOVERY_COMPLETE
  | CYBLE_EVT_GATTC_CHAR_DISCOVERY_COMPLETE
  | CYBLE_EVT_GATTC_DISCOVERY_COMPLETE
  | CYBLE_EVT_PENDING_FLASH_WRITE
  | OTHER_EVENT uint32

text \<open>What the application does to the outside: calls into the BLE component and the
  board, and debug lines (the text of the format string and the values printed).\<close>

datatype led = LED_OFF | LED_ON

datatype api_call =
    CyBle_L2capCbfcRegisterPsm uint16 uint16
  | CyBle_GetDeviceAddress
  | CyBle_GapcStartScan uint8
  | CyBle_GapcStopScan
  | CyBle_GapcConnectDevice "CYBLE_GAP_BD_ADDR_T option"
  | CyBle_GapcCancelDeviceConnection
  | CyBle_GapDisconnect uint8
  | CyBle_GattcStartDiscovery CYBLE_CONN_HANDLE_T
  | CyBle_L2capCbfcConnectReq uint8 uint16 uint16 CYBLE_L2CAP_CBFC_CONNECT_PARAM_T
  | CyBle_L2capCbfcSendFlowControlCredit uint16 uint16
  | CyBle_L2capChannelDataWrite uint8 uint16 "uint8 list" nat
  | Scanning_LED_Write led
  | SW2_ClearInterrupt
  | Wakeup_Interrupt_ClearPending
  | Wakeup_Interrupt_Start
  | CySysPmHibernate

datatype effect =
    Call api_call
  | DBG_PRINTF string "nat list"

text \<open>What the component hands to one dispatch: its state, the connection handle and the
  result it returns for a call.\<close>

record ble_env =
  CyBle_GetState :: CYBLE_STATE_T
  cyBle_connHandle :: CYBLE_CONN_HANDLE_T
  apiResult :: "api_call \<Rightarrow> uint32"

text \<open>The globals of \<^verbatim>\<open>main.c\<close>, with the two static counters of command '1'.\<close>

record globals =
  connIntv :: uint16
  l2capConnected :: bool
  l2capParameters :: CYBLE_L2CAP_CBFC_CONN_CNF_PARAM_T
  peerAddr :: "CYBLE_GAP_BD_ADDR_T list"
  advDevices :: uint8
  deviceN :: uint8
  state :: uint8
  ipv6LoopbackBuffer :: "uint16 list"
  custom_command :: uint8
  counter :: uint16
  repeats :: uint16

subsection \<open>Helpers of the C library and of the BLE component\<close>

text \<open>\<^verbatim>\<open>CyBle_Get16ByPtr\<close> of the BLE component reads a 16-bit value, least significant
  byte first (the byte order of Bluetooth).\<close>

definition CyBle_Get16ByPtr :: "(uint32 \<Rightarrow> uint8) \<Rightarrow> uint32 \<Rightarrow> uint16" where
  "CyBle_Get16ByPtr mem p = ucast (mem p) OR push_bit 8 (ucast (mem (p + 1)))"

text \<open>\<^verbatim>\<open>memcmp\<close>: the sign of the first difference within \<open>n\<close> bytes, 0 when there is none.\<close>

fun memcmp :: "(nat \<Rightarrow> uint8) \<Rightarrow> (nat \<Rightarrow> uint8) \<Rightarrow> nat \<Rightarrow> int" where
  "memcmp a b 0 = 0"
| "memcmp a b (Suc n) =
     (if a 0 < b 0 then - 1
      else if b 0 < a 0 then 1
      else memcmp (\<lambda>k. a (Suc k)) (\<lambda>k. b (Suc k)) n)"

text \<open>\<^verbatim>\<open>memcpy\<close> into an array: the first \<open>n\<close> bytes are replaced.\<close>

definition memcpy :: "uint8 list \<Rightarrow> (nat \<Rightarrow> uint8) \<Rightarrow> nat \<Rightarrow> uint8 list" where
  "memcpy dst src n = map src [0..<n] @ drop n dst"

text \<open>An array of bytes, and an array of 16-bit values (little endian, as the Cortex-M0
  stores them), seen through a byte pointer.\<close>

definition array_view :: "uint8 list \<Rightarrow> nat \<Rightarrow> uint8" where
  "array_view xs k = xs ! k"

definition uint16_view :: "uint16 list \<Rightarrow> nat \<Rightarrow> uint8" where
  "uint16_view ws k =
     (if even k then ucast (ws ! (k div 2)) else ucast (drop_bit 8 (ws ! (k div 2))))"

subsection \<open>CheckAdvPacketForServiceUuid\<close>

text \<open>
  The inner \<^verbatim>\<open>for\<close> loop. Its bound \<^verbatim>\<open>data[advIndex] - 1u\<close> is computed in
  \<^verbatim>\<open>unsigned int\<close>; \<^verbatim>\<open>i\<close> is a \<^verbatim>\<open>uint32\<close> stepped by \<^verbatim>\<open>sizeof(uint16)\<close>. The loop
  may run forever, so not returning is the value \<open>None\<close>.
\<close>

partial_function (option) uuid_loop ::
  "CYBLE_GAPC_ADV_REPORT_T \<Rightarrow> uint16 \<Rightarrow> uint32 \<Rightarrow> uint32 \<Rightarrow> uint32 \<Rightarrow> uint32 option" where
  "uuid_loop eventParam uuid advIndex i servicePresent =
     (if i < ucast (data eventParam advIndex) - 1 \<and> servicePresent = 0
      then uuid_loop eventParam uuid advIndex (i + 2)
             (if CyBle_Get16ByPtr (data eventParam) (advIndex + 2 + i) = uuid
              then 1 else servicePresent)
      else Some servicePresent)"

text \<open>The \<^verbatim>\<open>do ... while\<close> loop over the fields: one call is one run of its body, from
  \<open>advIndex\<close>, followed by the loop test.\<close>

partial_function (option) field_loop ::
  "CYBLE_GAPC_ADV_REPORT_T \<Rightarrow> uint16 \<Rightarrow> uint32 \<Rightarrow> uint32 \<Rightarrow> uint32 option" where
  "field_loop eventParam uuid advIndex servicePresent =
     Option.bind
       (if data eventParam (advIndex + 1) = CYBLE_GAP_ADV_INCOMPL_16UUID \<or>
           data eventParam (advIndex + 1) = CYBLE_GAP_ADV_COMPL_16UUID
        then uuid_loop eventParam uuid advIndex 0 servicePresent
        else Some servicePresent)
       (\<lambda>found.
          if advIndex + (ucast (data eventParam advIndex) + 1) < ucast (dataLen eventParam)
               \<and> found = 0
          then field_loop eventParam uuid
                 (advIndex + (ucast (data eventParam advIndex) + 1)) found
          else Some found)"

definition CheckAdvPacketForServiceUuid ::
  "CYBLE_GAPC_ADV_REPORT_T \<Rightarrow> uint16 \<Rightarrow> uint32 option" where
  "CheckAdvPacketForServiceUuid eventParam uuid = field_loop eventParam uuid 0 0"


subsection \<open>The claim's reading of an advertisement report\<close>

text \<open>
  The fields of a report as the length-prefixed encoding \<^verbatim>\<open>[length][type][data...]\<close>
  locates them: the first field starts at offset 0, a field with length byte \<open>l\<close> at
  offset \<open>off\<close> is followed by the field at \<open>off + l + 1\<close>, and fields start below the
  declared payload length. These definitions follow the specification's words, not the
  code; \<open>CheckAdvPacketForServiceUuid\<close> above is compared with them.
\<close>

function adv_fields :: "CYBLE_GAPC_ADV_REPORT_T \<Rightarrow> nat \<Rightarrow> nat list" where
  "adv_fields r off =
     (if off < unat (dataLen r)
      then off # adv_fields r (off + unat (data r (of_nat off)) + 1)
      else [])"
  by pat_completeness auto
termination
  by (relation "measure (\<lambda>(r, off). unat (dataLen r) - off)") auto

declare adv_fields.simps [simp del]

text \<open>The 16-bit values of a field: its \<open>l - 1\<close> data bytes read two by two.\<close>

definition field_uuid16s :: "CYBLE_GAPC_ADV_REPORT_T \<Rightarrow> nat \<Rightarrow> uint16 list" where
  "field_uuid16s r off =
     map (\<lambda>j. CyBle_Get16ByPtr (data r) (of_nat (off + 2 + 2 * j)))
       [0..<(unat (data r (of_nat off)) - 1) div 2]"

definition is_uuid16_list_field :: "CYBLE_GAPC_ADV_REPORT_T \<Rightarrow> nat \<Rightarrow> bool" where
  "is_uuid16_list_field r off =
     (1 \<le> unat (data r (of_nat off)) \<and>
      (data r (of_nat (off + 1)) = CYBLE_GAP_ADV_INCOMPL_16UUID \<or>
       data r (of_nat (off + 1)) = CYBLE_GAP_ADV_COMPL_16UUID))"

definition report_contains_uuid16 :: "CYBLE_GAPC_ADV_REPORT_T \<Rightarrow> uint16 \<Rightarrow> bool" where
  "report_contains_uuid16 r uuid =
     list_ex (\<lambda>off. is_uuid16_list_field r off \<and> uuid \<in> set (field_uuid16s r off))
       (adv_fields r 0)"

text \<open>What the loops of \<open>CheckAdvPacketForServiceUuid\<close> test at the field at \<open>off\<close>: the type
  byte, and the 16-bit values at the even offsets below the field's length minus one.
  And two conditions on a report: every field has a non-zero length byte, and every list
  of 16-bit UUIDs holds an even number of data bytes.\<close>

definition code_match :: "CYBLE_GAPC_ADV_REPORT_T \<Rightarrow> uint16 \<Rightarrow> nat \<Rightarrow> bool" where
  "code_match r uuid off =
     ((data r (of_nat (off + 1)) = CYBLE_GAP_ADV_INCOMPL_16UUID \<or>
       data r (of_nat (off + 1)) = CYBLE_GAP_ADV_COMPL_16UUID) \<and>
      list_ex (\<lambda>m. CyBle_Get16ByPtr (data r) (of_nat (off + 2 + 2 * m)) = uuid)
        [0..<unat (data r (of_nat off)) div 2])"

definition nonempty_fields :: "CYBLE_GAPC_ADV_REPORT_T \<Rightarrow> bool" where
  "nonempty_fields r =
     (dataLen r \<noteq> 0 \<and> list_all (\<lambda>off. data r (of_nat off) \<noteq> 0) (adv_fields r 0))"

definition even_uuid_lists :: "CYBLE_GAPC_ADV_REPORT_T \<Rightarrow> bool" where
  "even_uuid_lists r =
     list_all (\<lambda>off. \<not> is_uuid16_list_field r off \<or> odd (unat (data r (of_nat off))))
       (adv_fields r 0)"

text \<open>A report whose payload is the given bytes, in memory that is zero behind them.\<close>

definition bytes_at :: "uint8 list \<Rightarrow> uint32 \<Rightarrow> uint8" where
  "bytes_at xs k = (if unat k < length xs then xs ! unat k else 0)"

definition adv_report :: "uint8 list \<Rightarrow> uint8 list \<Rightarrow> uint8 \<Rightarrow> CYBLE_GAPC_ADV_REPORT_T" where
  "adv_report addr xs kind =
     \<lparr>eventType = 0, peerAddrType = kind, peerBdAddr = array_view addr,
      dataLen = of_nat (length xs), data = bytes_at xs, rssi = 0\<rparr>"

subsection \<open>AppCallback\<close>

definition api_error :: "ble_env \<Rightarrow> api_call \<Rightarrow> string \<Rightarrow> effect list" where
  "api_error env c msg =
     (if apiResult env c \<noteq> CYBLE_ERROR_OK then [DBG_PRINTF msg [unat (apiResult env c)]] else [])"

text \<open>The \<^verbatim>\<open>for\<close> loop over the logged devices: \<open>newDevice\<close>, and the line printed at
  the \<^verbatim>\<open>break\<close>.\<close>

function newDevice_loop ::
  "CYBLE_GAP_BD_ADDR_T list \<Rightarrow> (nat \<Rightarrow> uint8) \<Rightarrow> uint8 \<Rightarrow> nat \<Rightarrow> uint8 \<times> effect list" where
  "newDevice_loop logged addr n i =
     (if i < unat n
      then (if memcmp (array_view (bdAddr (logged ! i))) addr CYBLE_GAP_BD_ADDR_SIZE = 0
            then (0, [DBG_PRINTF ''%x: '' [i]])
            else newDevice_loop logged addr n (i + 1))
      else (1, []))"
  by pat_completeness auto
termination
  by (relation "measure (\<lambda>(logged, addr, n, i). unat n - i)") auto

text \<open>The body of the scan-result case once the report has passed the filter: the
  device is logged when its address is new and the array has room.\<close>

definition log_device :: "config \<Rightarrow> globals \<Rightarrow> CYBLE_GAPC_ADV_REPORT_T \<Rightarrow> globals \<times> effect list" where
  "log_device cfg g advReport =
     (case newDevice_loop (peerAddr g) (peerBdAddr advReport) (advDevices g) 0 of
        (newDevice, dbg) \<Rightarrow>
          (if newDevice \<noteq> 0
           then (if unat (advDevices g) < CYBLE_MAX_ADV_DEVICES cfg
                 then (g\<lparr>peerAddr := (peerAddr g)[unat (advDevices g) :=
                            (peerAddr g ! unat (advDevices g))
                              \<lparr>bdAddr := memcpy (bdAddr (peerAddr g ! unat (advDevices g)))
                                          (peerBdAddr advReport) CYBLE_GAP_BD_ADDR_SIZE,
                               type := peerAddrType advReport\<rparr>],
                         advDevices := advDevices g + 1\<rparr>,
                       [DBG_PRINTF ''Advertisement report: eventType, peerAddrType''
                          [unat (eventType advReport), unat (peerAddrType advReport)],
                        DBG_PRINTF ''peerBdAddr - '' []] @ dbg @
                       [DBG_PRINTF ''%x: '' [unat (advDevices g)],
                        DBG_PRINTF ''%2.2x''
                          (map (\<lambda>k. unat (peerBdAddr advReport k)) (rev [0..<CYBLE_GAP_BD_ADDR_SIZE])),
                        DBG_PRINTF '', rssi - %d dBm'' [unat (rssi advReport)]])
                 else (g,
                       [DBG_PRINTF ''Advertisement report: eventType, peerAddrType''
                          [unat (eventType advReport), unat (peerAddrType advReport)],
                        DBG_PRINTF ''peerBdAddr - '' []] @ dbg @
                       [DBG_PRINTF ''%2.2x''
                          (map (\<lambda>k. unat (peerBdAddr advReport k)) (rev [0..<CYBLE_GAP_BD_ADDR_SIZE])),
                        DBG_PRINTF '', rssi - %d dBm'' [unat (rssi advReport)]]))
           else (g,
                 [DBG_PRINTF ''Advertisement report: eventType, peerAddrType''
                    [unat (eventType advReport), unat (peerAddrType advReport)],
                  DBG_PRINTF ''peerBdAddr - '' []] @ dbg @
                 [DBG_PRINTF ''%2.2x''
                    (map (\<lambda>k. unat (peerBdAddr advReport k)) (rev [0..<CYBLE_GAP_BD_ADDR_SIZE])),
                  DBG_PRINTF '', rssi - %d dBm'' [unat (rssi advReport)]])))"

definition scan_progress_result ::
  "config \<Rightarrow> globals \<Rightarrow> CYBLE_GAPC_ADV_REPORT_T \<Rightarrow> (globals \<times> effect list) option" where
  "scan_progress_result cfg g advReport =
     (case CheckAdvPacketForServiceUuid advReport CYBLE_UUID_INTERNET_PROTOCOL_SUPPORT_SERVICE of
        None \<Rightarrow> None
      | Some found \<Rightarrow> if found \<noteq> 0 then Some (log_device cfg g advReport) else Some (g, []))"

definition UpdateLedState :: "ble_env \<Rightarrow> effect list" where
  "UpdateLedState env =
     (if CyBle_GetState env = CYBLE_STATE_DISCONNECTED then [Call (Scanning_LED_Write LED_OFF)]
      else if CyBle_GetState env = CYBLE_STATE_CONNECTED then [Call (Scanning_LED_Write LED_ON)]
      else [])"

definition scan_start_stop :: "config \<Rightarrow> ble_env \<Rightarrow> globals \<Rightarrow> effect list" where
  "scan_start_stop cfg env g =
     DBG_PRINTF ''CYBLE_EVT_GAPC_SCAN_START_STOP, state'' [] #
     (if CyBle_GetState env = CYBLE_STATE_DISCONNECTED
      then (if state g = STATE_CONNECTING cfg
            then DBG_PRINTF ''GAPC_END_SCANNING'' [] #
                 Call (CyBle_GapcConnectDevice
                   (if unat (deviceN g) < length (peerAddr g)
                    then Some (peerAddr g ! unat (deviceN g)) else None)) #
                 api_error env
                   (CyBle_GapcConnectDevice
                     (if unat (deviceN g) < length (peerAddr g)
                      then Some (peerAddr g ! unat (deviceN g)) else None))
                   ''ConnectDevice API Error: %x''
            else DBG_PRINTF ''Hibernate'' [] # UpdateLedState env @
                 [Call SW2_ClearInterrupt, Call Wakeup_Interrupt_ClearPending,
                  Call Wakeup_Interrupt_Start, Call CySysPmHibernate])
      else [])"

definition stack_on :: "config \<Rightarrow> ble_env \<Rightarrow> effect list" where
  "stack_on cfg env =
     Call (CyBle_L2capCbfcRegisterPsm CYBLE_L2CAP_PSM_LE_PSM_IPSP (LE_WATER_MARK_IPSP cfg)) #
     api_error env (CyBle_L2capCbfcRegisterPsm CYBLE_L2CAP_PSM_LE_PSM_IPSP (LE_WATER_MARK_IPSP cfg))
       ''CyBle_L2capCbfcRegisterPsm API Error: %d'' @
     Call (CyBle_GapcStartScan CYBLE_SCANNING_FAST) #
     (if apiResult env (CyBle_GapcStartScan CYBLE_SCANNING_FAST) \<noteq> CYBLE_ERROR_OK
      then [DBG_PRINTF ''StartScan API Error: %xd''
              [unat (apiResult env (CyBle_GapcStartScan CYBLE_SCANNING_FAST))]]
      else [DBG_PRINTF ''Bluetooth On, StartScan with addr: '' [],
            Call CyBle_GetDeviceAddress])"

definition gatt_connect_ind :: "config \<Rightarrow> ble_env \<Rightarrow> effect list" where
  "gatt_connect_ind cfg env =
     [DBG_PRINTF ''CYBLE_EVT_GATT_CONNECT_IND: %x, %x''
        [unat (attId (cyBle_connHandle env)), unat (bdHandle (cyBle_connHandle env))],
      Call (CyBle_L2capCbfcConnectReq (bdHandle (cyBle_connHandle env))
              CYBLE_L2CAP_PSM_LE_PSM_IPSP CYBLE_L2CAP_PSM_LE_PSM_IPSP
              \<lparr>mtu = CYBLE_L2CAP_MTU cfg, mps = CYBLE_L2CAP_MPS cfg,
               credit = LE_DATA_CREDITS_IPSP cfg\<rparr>)] @
     (if apiResult env
           (CyBle_L2capCbfcConnectReq (bdHandle (cyBle_connHandle env))
              CYBLE_L2CAP_PSM_LE_PSM_IPSP CYBLE_L2CAP_PSM_LE_PSM_IPSP
              \<lparr>mtu = CYBLE_L2CAP_MTU cfg, mps = CYBLE_L2CAP_MPS cfg,
               credit = LE_DATA_CREDITS_IPSP cfg\<rparr>) \<noteq> CYBLE_ERROR_OK
      then [DBG_PRINTF ''CyBle_L2capCbfcConnectReq API Error: %d'' []]
      else [DBG_PRINTF ''L2CAP channel connection request sent.'' []])"

definition data_read ::
  "config \<Rightarrow> globals \<Rightarrow> CYBLE_L2CAP_CBFC_RX_PARAM_T \<Rightarrow> globals \<times> effect list" where
  "data_read cfg g rxDataParam =
     (if memcmp (uint16_view (ipv6LoopbackBuffer g)) (rxData rxDataParam)
           (unat (L2CAP_MAX_LEN cfg)) \<noteq> 0
      then (g,
            [DBG_PRINTF ''<- EVT_L2CAP_CBFC_DATA_READ: lCid=%d, result=%d, len=%d''
               [unat (rx_lCid rxDataParam), unat (rx_result rxDataParam),
                unat (rxDataLength rxDataParam)],
             DBG_PRINTF ''Wraparound failed'' []])
      else (g\<lparr>custom_command := 0x31\<rparr>,
            [DBG_PRINTF ''<- EVT_L2CAP_CBFC_DATA_READ: lCid=%d, result=%d, len=%d''
               [unat (rx_lCid rxDataParam), unat (rx_result rxDataParam),
                unat (rxDataLength rxDataParam)]]))"

definition rx_credit_ind ::
  "config \<Rightarrow> ble_env \<Rightarrow> CYBLE_L2CAP_CBFC_LOW_RX_CREDIT_PARAM_T \<Rightarrow> effect list" where
  "rx_credit_ind cfg env rxCreditParam =
     DBG_PRINTF ''CYBLE_EVT_L2CAP_CBFC_RX_CREDIT_IND: lCid=%d, credit=%d''
       [unat (low_lCid rxCreditParam), unat (low_credit rxCreditParam)] #
     Call (CyBle_L2capCbfcSendFlowControlCredit (low_lCid rxCreditParam)
             (LE_DATA_CREDITS_IPSP cfg)) #
     api_error env
       (CyBle_L2capCbfcSendFlowControlCredit (low_lCid rxCreditParam) (LE_DATA_CREDITS_IPSP cfg))
       ''CyBle_L2capCbfcSendFlowControlCredit API Error: %d''"

text \<open>\<^verbatim>\<open>connIntv * 5u / 4u\<close> is computed in \<^verbatim>\<open>unsigned int\<close> and stored in a \<^verbatim>\<open>uint16\<close>.\<close>

definition conn_interval_ms :: "uint16 \<Rightarrow> uint16" where
  "conn_interval_ms c = ucast ((ucast c :: uint32) * 5 div 4)"

fun AppCallback ::
  "config \<Rightarrow> ble_env \<Rightarrow> globals \<Rightarrow> event \<Rightarrow> (globals \<times> effect list) option" where
  "AppCallback cfg env g CYBLE_EVT_STACK_ON = Some (g, stack_on cfg env)"
| "AppCallback cfg env g CYBLE_EVT_TIMEOUT = Some (g, [DBG_PRINTF ''CYBLE_EVT_TIMEOUT: %x'' []])"
| "AppCallback cfg env g CYBLE_EVT_HARDWARE_ERROR = Some (g, [DBG_PRINTF ''Hardware Error: %x'' []])"
| "AppCallback cfg env g CYBLE_EVT_HCI_STATUS = Some (g, [DBG_PRINTF ''CYBLE_EVT_HCI_STATUS: %x'' []])"
| "AppCallback cfg env g CYBLE_EVT_STACK_BUSY_STATUS = Some (g, [])"
| "AppCallback cfg env g (CYBLE_EVT_GAPC_SCAN_PROGRESS_RESULT advReport) =
     scan_progress_result cfg g advReport"
| "AppCallback cfg env g CYBLE_EVT_GAPC_SCAN_START_STOP = Some (g, scan_start_stop cfg env g)"
| "AppCallback cfg env g CYBLE_EVT_GAP_AUTH_REQ = Some (g, [DBG_PRINTF ''CYBLE_EVT_AUTH_REQ'' []])"
| "AppCallback cfg env g CYBLE_EVT_GAP_PASSKEY_ENTRY_REQUEST =
     Some (g, [DBG_PRINTF ''CYBLE_EVT_PASSKEY_ENTRY_REQUEST press p to enter passkey'' []])"
| "AppCallback cfg env g CYBLE_EVT_GAP_PASSKEY_DISPLAY_REQUEST =
     Some (g, [DBG_PRINTF ''CYBLE_EVT_PASSKEY_DISPLAY_REQUEST %6.6ld'' []])"
| "AppCallback cfg env g CYBLE_EVT_GAP_KEYINFO_EXCHNGE_CMPLT =
     Some (g, [DBG_PRINTF ''CYBLE_EVT_GAP_KEYINFO_EXCHNGE_CMPLT'' []])"
| "AppCallback cfg env g CYBLE_EVT_GAP_AUTH_COMPLETE = Some (g, [DBG_PRINTF ''AUTH_COMPLETE'' []])"
| "AppCallback cfg env g CYBLE_EVT_GAP_AUTH_FAILED =
     Some (g, [DBG_PRINTF ''CYBLE_EVT_AUTH_FAILED: %x'' []])"
| "AppCallback cfg env g (CYBLE_EVT_GAP_DEVICE_CONNECTED c) =
     Some (g\<lparr>connIntv := conn_interval_ms c\<rparr>,
           [DBG_PRINTF ''CYBLE_EVT_GAP_DEVICE_CONNECTED: connIntv = %d ms''
              [unat (conn_interval_ms c)]])"
| "AppCallback cfg env g (CYBLE_EVT_GAPC_CONNECTION_UPDATE_COMPLETE c) =
     Some (g\<lparr>connIntv := conn_interval_ms c\<rparr>,
           [DBG_PRINTF ''CYBLE_EVT_GAPC_CONNECTION_UPDATE_COMPLETE: %x, %x, %x, %x'' []])"
| "AppCallback cfg env g (CYBLE_EVT_GAP_DEVICE_DISCONNECTED reason) =
     Some (g,
           DBG_PRINTF ''CYBLE_EVT_GAP_DEVICE_DISCONNECTED: %x'' [unat reason] #
           Call (CyBle_GapcStartScan CYBLE_SCANNING_FAST) #
           api_error env (CyBle_GapcStartScan CYBLE_SCANNING_FAST) ''StartScan API Error: %xd'')"
| "AppCallback cfg env g CYBLE_EVT_GAP_ENCRYPT_CHANGE =
     Some (g, [DBG_PRINTF ''CYBLE_EVT_GAP_ENCRYPT_CHANGE: %x'' []])"
| "AppCallback cfg env g CYBLE_EVT_GATT_CONNECT_IND = Some (g, gatt_connect_ind cfg env)"
| "AppCallback cfg env g CYBLE_EVT_GATT_DISCONNECT_IND =
     Some (g, [DBG_PRINTF ''CYBLE_EVT_GATT_DISCONNECT_IND'' []])"
| "AppCallback cfg env g CYBLE_EVT_GATTC_ERROR_RSP = Some (g, [DBG_PRINTF ''GATT_ERROR_RSP'' []])"
| "AppCallback cfg env g (CYBLE_EVT_L2CAP_CBFC_CONN_CNF p) =
     Some (g\<lparr>l2capParameters := p, l2capConnected := True\<rparr>,
           [DBG_PRINTF ''CYBLE_EVT_L2CAP_CBFC_CONN_CNF: bdHandle=%d, lCid=%d, responce=%d''
              [unat (cnf_bdHandle p), unat (lCid p), unat (response p)],
            DBG_PRINTF '', connParam: mtu=%d, mps=%d, credit=%d''
              [unat (mtu (connParam p)), unat (mps (connParam p)), unat (credit (connParam p))]])"
| "AppCallback cfg env g (CYBLE_EVT_L2CAP_CBFC_DISCONN_IND cid) =
     Some (g\<lparr>l2capConnected := False\<rparr>,
           [DBG_PRINTF ''CYBLE_EVT_L2CAP_CBFC_DISCONN_IND: %d'' [unat cid]])"
| "AppCallback cfg env g (CYBLE_EVT_L2CAP_CBFC_DATA_READ rxDataParam) =
     Some (data_read cfg g rxDataParam)"
| "AppCallback cfg env g (CYBLE_EVT_L2CAP_CBFC_RX_CREDIT_IND rxCreditParam) =
     Some (g, rx_credit_ind cfg env rxCreditParam)"
| "AppCallback cfg env g CYBLE_EVT_L2CAP_CBFC_TX_CREDIT_IND =
     Some (g, [DBG_PRINTF ''CYBLE_EVT_L2CAP_CBFC_TX_CREDIT_IND: lCid=%d, result=%d, credit=%d'' []])"
| "AppCallback cfg env g CYBLE_EVT_L2CAP_CBFC_DATA_WRITE_IND = Some (g, [])"
| "AppCallback cfg env g CYBLE_EVT_GATTC_CHAR_DUPLICATION =
     Some (g, [DBG_PRINTF ''DUPLICATION, UUID: %x'' []])"
| "AppCallback cfg env g CYBLE_EVT_GATTC_DESCR_DUPLICATION =
     Some (g, [DBG_PRINTF ''DUPLICATION, UUID: %x'' []])"
| "AppCallback cfg env g CYBLE_EVT_GATTC_SRVC_DUPLICATION =
     Some (g, [DBG_PRINTF ''DUPLICATION, UUID: %x'' []])"
| "AppCallback cfg env g CYBLE_EVT_GATTC_SRVC_DISCOVERY_FAILED =
     Some (g, [DBG_PRINTF ''DISCOVERY_FAILED'' []])"
| "AppCallback cfg env g CYBLE_EVT_GATTC_SRVC_DISCOVERY_COMPLETE =
     Some (g, [DBG_PRINTF ''CYBLE_EVT_SERVER_SRVC_DISCOVERY_COMPLETE'' []])"
| "AppCallback cfg env g CYBLE_EVT_GATTC_INCL_DISCOVERY_COMPLETE =
     Some (g, [DBG_PRINTF ''CYBLE_EVT_SERVER_INCL_DISCOVERY_COMPLETE'' []])"
| "AppCallback cfg env g CYBLE_EVT_GATTC_CHAR_DISCOVERY_COMPLETE =
     Some (g, [DBG_PRINTF ''CYBLE_EVT_SERVER_CHAR_DISCOVERY_COMPLETE'' []])"
| "AppCallback cfg env g CYBLE_EVT_GATTC_DISCOVERY_COMPLETE =
     Some (g, [DBG_PRINTF ''CYBLE_EVT_SERVER_DISCOVERY_COMPLETE'' []])"
| "AppCallback cfg env g CYBLE_EVT_PENDING_FLASH_WRITE =
     Some (g, [DBG_PRINTF ''CYBLE_EVT_PENDING_FLASH_WRITE'' []])"
| "AppCallback cfg env g (OTHER_EVENT code) =
     Some (g, [DBG_PRINTF ''OTHER event: %lx'' [unat code]])"

text \<open>\<^verbatim>\<open>CyBle_ProcessEvents\<close> dispatches the pending events in order, each with what the
  component reports at that moment.\<close>

fun run_events ::
  "config \<Rightarrow> globals \<Rightarrow> (ble_env \<times> event) list \<Rightarrow> (globals \<times> effect list) option" where
  "run_events cfg g [] = Some (g, [])"
| "run_events cfg g ((env, ev) # rest) =
     (case AppCallback cfg env g ev of
        None \<Rightarrow> None
      | Some (g', out) \<Rightarrow>
          (case run_events cfg g' rest of
             None \<Rightarrow> None
           | Some (g'', out') \<Rightarrow> Some (g'', out @ out')))"

text \<open>The globals at start-up: C initialises them to zero, \<open>state\<close> to \<open>STATE_INIT\<close>.\<close>

definition initial_globals :: "config \<Rightarrow> globals" where
  "initial_globals cfg =
     \<lparr>connIntv = 0, l2capConnected = False,
      l2capParameters = \<lparr>cnf_bdHandle = 0, lCid = 0, response = 0,
                         connParam = \<lparr>mtu = 0, mps = 0, credit = 0\<rparr>\<rparr>,
      peerAddr = replicate (CYBLE_MAX_ADV_DEVICES cfg)
                   \<lparr>bdAddr = replicate CYBLE_GAP_BD_ADDR_SIZE 0, type = 0\<rparr>,
      advDevices = 0, deviceN = 0, state = STATE_INIT cfg,
      ipv6LoopbackBuffer = replicate (unat (L2CAP_MAX_LEN cfg) div 2) 0,
      custom_command = 0, counter = 0, repeats = 0\<rparr>"


subsection \<open>The command part of main's loop\<close>

text \<open>
  \<^verbatim>\<open>UART_DEB_UartGetChar\<close> returns the next received character, 0 when there is none.
  The characters the console delivers are a list, one entry per call; after its end
  nothing is received any more.
\<close>

fun UART_DEB_UartGetChar :: "uint8 list \<Rightarrow> uint8 \<times> uint8 list" where
  "UART_DEB_UartGetChar [] = (0, [])"
| "UART_DEB_UartGetChar (c # cs) = (c, cs)"

text \<open>\<^verbatim>\<open>while((command = UART_DEB_UartGetChar()) == 0);\<close> of command 'z': it does not return
  when no character arrives.\<close>

fun wait_char :: "uint8 list \<Rightarrow> (uint8 \<times> uint8 list) option" where
  "wait_char [] = None"
| "wait_char (c # cs) = (if c = 0 then wait_char cs else Some (c, cs))"

text \<open>The loop of command '1' that fills the output buffer with the counter.\<close>

function fill_loop :: "nat \<Rightarrow> nat \<Rightarrow> uint16 list \<Rightarrow> uint16 \<Rightarrow> uint16 list \<times> uint16" where
  "fill_loop i n buf c =
     (if i < n then fill_loop (i + 1) n (buf[i := c]) (c + 1) else (buf, c))"
  by pat_completeness auto
termination
  by (relation "measure (\<lambda>(i, n, buf, c). n - i)") auto

declare fill_loop.simps [simp del]

definition send_data_packet :: "config \<Rightarrow> ble_env \<Rightarrow> globals \<Rightarrow> globals \<times> effect list" where
  "send_data_packet cfg env g =
     (case fill_loop 0 (unat (L2CAP_MAX_LEN cfg) div 2) (ipv6LoopbackBuffer g) (counter g) of
        (buf, c) \<Rightarrow>
          (g\<lparr>ipv6LoopbackBuffer := buf, counter := c, repeats := repeats g + 1\<rparr>,
           DBG_PRINTF ''-> CyBle_L2capChannelDataWrite #%d'' [unat (repeats g)] #
           Call (CyBle_L2capChannelDataWrite (bdHandle (cyBle_connHandle env))
                   (lCid (l2capParameters g))
                   (map (uint16_view buf) [0..<unat (L2CAP_MAX_LEN cfg)])
                   (unat (L2CAP_MAX_LEN cfg))) #
           api_error env
             (CyBle_L2capChannelDataWrite (bdHandle (cyBle_connHandle env))
                (lCid (l2capParameters g))
                (map (uint16_view buf) [0..<unat (L2CAP_MAX_LEN cfg)])
                (unat (L2CAP_MAX_LEN cfg)))
             ''CyBle_L2capChannelDataWrite API Error: %x''))"

text \<open>The \<^verbatim>\<open>switch(command)\<close>. Characters are their ASCII codes: 'c' = 0x63, 'v' = 0x76,
  'd' = 0x64, 's' = 0x73, 'z' = 0x7A, '1' = 0x31, 'h' = 0x68, '0' = 0x30, '9' = 0x39.\<close>

definition run_command ::
  "config \<Rightarrow> ble_env \<Rightarrow> globals \<Rightarrow> uint8 list \<Rightarrow> uint8 \<Rightarrow>
     (globals \<times> effect list \<times> uint8 list) option" where
  "run_command cfg env g uart command =
     (if command = 0x63
      then Some (g\<lparr>state := STATE_CONNECTING cfg\<rparr>, [Call CyBle_GapcStopScan], uart)
      else if command = 0x76
      then Some (g, [Call CyBle_GapcCancelDeviceConnection,
                     DBG_PRINTF ''CyBle_GapcCancelDeviceConnection: %x''
                       [unat (apiResult env CyBle_GapcCancelDeviceConnection)]], uart)
      else if command = 0x64
      then Some (g, Call (CyBle_GapDisconnect (bdHandle (cyBle_connHandle env))) #
                    api_error env (CyBle_GapDisconnect (bdHandle (cyBle_connHandle env)))
                      ''DisconnectDevice API Error: %x'', uart)
      else if command = 0x73
      then Some (g, Call (CyBle_GattcStartDiscovery (cyBle_connHandle env)) #
                    DBG_PRINTF ''StartDiscovery'' [] #
                    api_error env (CyBle_GattcStartDiscovery (cyBle_connHandle env))
                      ''StartDiscovery API Error: %x'', uart)
      else if command = 0x7A
      then (case wait_char uart of
              None \<Rightarrow> None
            | Some (digit, uart') \<Rightarrow>
                if 0x30 \<le> digit \<and> digit \<le> 0x39
                then Some (g\<lparr>deviceN := digit - 0x30\<rparr>,
                           [DBG_PRINTF ''Select Device:'' [], DBG_PRINTF ''%c'' [unat digit]], uart')
                else Some (g, [DBG_PRINTF ''Select Device:'' [], DBG_PRINTF '' Wrong digit'' []],
                           uart'))
      else if command = 0x31
      then (case send_data_packet cfg env g of (g', out) \<Rightarrow> Some (g', out, uart))
      else if command = 0x68
      then Some (g, [DBG_PRINTF ''Available commands:'' [],
                     DBG_PRINTF '' h - Help menu.'' [],
                     DBG_PRINTF '' z + Number - Select peer device.'' [],
                     DBG_PRINTF '' c - Send connect request to peer device.'' [],
                     DBG_PRINTF '' d - Send disconnect request to peer device.'' [],
                     DBG_PRINTF '' v - Cancel connection request.'' [],
                     DBG_PRINTF '' s - Start discovery procedure.'' [],
                     DBG_PRINTF '' 1 - Send Data packet to Node though IPSP channel.'' []],
                 uart)
      else Some (g, [], uart))"

text \<open>One pass of the loop after \<^verbatim>\<open>CyBle_ProcessEvents\<close>: a character from the console or
  a pending \<open>custom_command\<close> (when the component is not busy) selects the command.\<close>

definition main_command ::
  "config \<Rightarrow> ble_env \<Rightarrow> uint8 \<Rightarrow> globals \<Rightarrow> uint8 list \<Rightarrow>
     (globals \<times> effect list \<times> uint8 list) option" where
  "main_command cfg env cyBle_busyStatus g uart =
     (case UART_DEB_UartGetChar uart of
        (command, uart') \<Rightarrow>
          if command \<noteq> 0 \<or> (custom_command g \<noteq> 0 \<and> cyBle_busyStatus = 0)
          then (if custom_command g \<noteq> 0
                then run_command cfg env (g\<lparr>custom_command := 0\<rparr>) uart' (custom_command g)
                else run_command cfg env g uart' command)
          else Some (g, [], uart'))"

text \<open>The calls among the outputs of a step.\<close>

fun calls :: "effect list \<Rightarrow> api_call list" where
  "calls [] = []"
| "calls (Call c # out) = c # calls out"
| "calls (DBG_PRINTF msg args # out) = calls out"

text \<open>The address bytes of the logged devices: the registry of discovered peers.\<close>

definition registry :: "globals \<Rightarrow> uint8 list list" where
  "registry g =
     map (\<lambda>e. take CYBLE_GAP_BD_ADDR_SIZE (bdAddr e)) (take (unat (advDevices g)) (peerAddr g))"

text \<open>Calls that grant receive credits to the peer, and calls that start a connection.\<close>

fun is_credit_grant :: "api_call \<Rightarrow> bool" where
  "is_credit_grant (CyBle_L2capCbfcSendFlowControlCredit cid n) = True"
| "is_credit_grant c = False"

fun is_connect :: "api_call \<Rightarrow> bool" where
  "is_connect (CyBle_GapcConnectDevice a) = True"
| "is_connect c = False"

text \<open>A small configuration and a component that accepts every call, for the examples.\<close>

definition example_config :: config where
  "example_config =
     \<lparr>CYBLE_MAX_ADV_DEVICES = 2, LE_DATA_CREDITS_IPSP = 1000, LE_WATER_MARK_IPSP = 500,
      L2CAP_MAX_LEN = 4, CYBLE_L2CAP_MTU = 1280, CYBLE_L2CAP_MPS = 1280,
      STATE_INIT = 0, STATE_CONNECTING = 1\<rparr>"

definition example_env :: "CYBLE_STATE_T \<Rightarrow> ble_env" where
  "example_env st =
     \<lparr>CyBle_GetState = st, cyBle_connHandle = \<lparr>bdHandle = 4, attId = 0\<rparr>,
      apiResult = (\<lambda>c. CYBLE_ERROR_OK)\<rparr>"

text \<open>The invariant of the registry: the array has its declared size, the count stays
  within it, and the logged addresses are pairwise different.\<close>

definition registry_ok :: "config \<Rightarrow> globals \<Rightarrow> bool" where
  "registry_ok cfg g =
     (length (peerAddr g) = CYBLE_MAX_ADV_DEVICES cfg \<and>
      unat (advDevices g) \<le> CYBLE_MAX_ADV_DEVICES cfg \<and>
      distinct (registry g))"

text \<open>Example inputs: a report that advertises the Internet Protocol Support Service in a
  complete list of 16-bit UUIDs, a component that is scanning, and the globals after the
  device AA:BB:CC:DD:EE:01 (public address) has been logged.\<close>

definition ipss_report :: "uint8 list \<Rightarrow> uint8 \<Rightarrow> CYBLE_GAPC_ADV_REPORT_T" where
  "ipss_report addr kind = adv_report addr [3, 3, 0x20, 0x18] kind"

definition scanning_env :: ble_env where
  "scanning_env = example_env CYBLE_STATE_SCANNING"

definition one_device_logged :: globals where
  "one_device_logged =
     (initial_globals example_config)
       \<lparr>peerAddr := [\<lparr>bdAddr = [0x01, 0xEE, 0xDD, 0xCC, 0xBB, 0xAA], type = 0\<rparr>,
                    \<lparr>bdAddr = [0, 0, 0, 0, 0, 0], type = 0\<rparr>],
        advDevices := 1\<rparr>"




section \<open>Properties\<close>

subsection \<open>Helper lemmas\<close>

lemma memcmp_eq_0_iff: "memcmp a b n = 0 \<longleftrightarrow> (\<forall>k<n. a k = b k)"
proof (induction n arbitrary: a b)
  case 0
  show ?case by simp
next
  case (Suc n)
  have "(\<forall>k<Suc n. a k = b k) \<longleftrightarrow> a 0 = b 0 \<and> (\<forall>k<n. a (Suc k) = b (Suc k))"
    by (auto simp: less_Suc_eq_0_disj)
  with Suc show ?case by auto
qed

lemma calls_append: "calls (xs @ ys) = calls xs @ calls ys"
  by (induction xs rule: calls.induct) auto

lemma calls_api_error: "calls (api_error env c msg) = []"
  by (simp add: api_error_def)

lemma newDevice_loop_calls: "calls (snd (newDevice_loop logged addr n i)) = []"
  by (induction logged addr n i rule: newDevice_loop.induct) (subst newDevice_loop.simps, simp)

lemma newDevice_loop_new:
  "fst (newDevice_loop logged addr n i) \<noteq> 0 \<longleftrightarrow>
     (\<forall>j. i \<le> j \<and> j < unat n \<longrightarrow>
        memcmp (array_view (bdAddr (logged ! j))) addr CYBLE_GAP_BD_ADDR_SIZE \<noteq> 0)"
proof (induction logged addr n i rule: newDevice_loop.induct)
  case (1 logged addr n i)
  show ?case
  proof (cases "i < unat n")
    case False
    then show ?thesis by (subst newDevice_loop.simps) simp
  next
    case True
    note lt = this
    show ?thesis
    proof (cases "memcmp (array_view (bdAddr (logged ! i))) addr CYBLE_GAP_BD_ADDR_SIZE = 0")
      case True
      with lt show ?thesis by (subst newDevice_loop.simps) auto
    next
      case False
      have "(\<forall>j. i \<le> j \<and> j < unat n \<longrightarrow>
              memcmp (array_view (bdAddr (logged ! j))) addr CYBLE_GAP_BD_ADDR_SIZE \<noteq> 0) \<longleftrightarrow>
            (\<forall>j. i + 1 \<le> j \<and> j < unat n \<longrightarrow>
              memcmp (array_view (bdAddr (logged ! j))) addr CYBLE_GAP_BD_ADDR_SIZE \<noteq> 0)"
      proof -
        have "i \<le> j \<longleftrightarrow> j = i \<or> i + 1 \<le> j" for j by auto
        with False show ?thesis by auto
      qed
      with 1[OF lt False] lt False show ?thesis
        by (subst newDevice_loop.simps) simp
    qed
  qed
qed

lemma calls_log_device: "calls (snd (log_device cfg g r)) = []"
proof -
  obtain nd dbg where nl: "newDevice_loop (peerAddr g) (peerBdAddr r) (advDevices g) 0 = (nd, dbg)"
    by (cases "newDevice_loop (peerAddr g) (peerBdAddr r) (advDevices g) 0")
  with newDevice_loop_calls[of "peerAddr g" "peerBdAddr r" "advDevices g" 0]
  have "calls dbg = []" by simp
  with nl show ?thesis by (simp add: log_device_def calls_append)
qed

lemma scan_progress_result_cases:
  assumes "scan_progress_result cfg g r = Some (g', out)"
  shows "(g', out) = log_device cfg g r \<or> (g', out) = (g, [])"
proof (cases "CheckAdvPacketForServiceUuid r CYBLE_UUID_INTERNET_PROTOCOL_SUPPORT_SERVICE")
  case None
  with assms show ?thesis by (simp add: scan_progress_result_def)
next
  case (Some found)
  with assms show ?thesis by (cases "found = 0") (simp_all add: scan_progress_result_def)
qed

lemma calls_scan_progress_result:
  assumes "scan_progress_result cfg g r = Some (g', out)"
  shows "calls out = []"
  using scan_progress_result_cases[OF assms] calls_log_device[of cfg g r]
  by (metis calls.simps(1) snd_conv)

lemma calls_stack_on:
  "calls (stack_on cfg env) =
     [CyBle_L2capCbfcRegisterPsm CYBLE_L2CAP_PSM_LE_PSM_IPSP (LE_WATER_MARK_IPSP cfg),
      CyBle_GapcStartScan CYBLE_SCANNING_FAST] @
     (if apiResult env (CyBle_GapcStartScan CYBLE_SCANNING_FAST) \<noteq> CYBLE_ERROR_OK then []
      else [CyBle_GetDeviceAddress])"
  by (simp add: stack_on_def calls_append calls_api_error)

lemma calls_gatt_connect_ind:
  "calls (gatt_connect_ind cfg env) =
     [CyBle_L2capCbfcConnectReq (bdHandle (cyBle_connHandle env))
        CYBLE_L2CAP_PSM_LE_PSM_IPSP CYBLE_L2CAP_PSM_LE_PSM_IPSP
        \<lparr>mtu = CYBLE_L2CAP_MTU cfg, mps = CYBLE_L2CAP_MPS cfg,
         credit = LE_DATA_CREDITS_IPSP cfg\<rparr>]"
  by (simp add: gatt_connect_ind_def)

lemma calls_rx_credit_ind:
  "calls (rx_credit_ind cfg env p) =
     [CyBle_L2capCbfcSendFlowControlCredit (low_lCid p) (LE_DATA_CREDITS_IPSP cfg)]"
  by (simp add: rx_credit_ind_def calls_api_error)

lemma calls_data_read: "calls (snd (data_read cfg g p)) = []"
  by (simp add: data_read_def)

lemma calls_scan_start_stop:
  "calls (scan_start_stop cfg env g) =
     (if CyBle_GetState env = CYBLE_STATE_DISCONNECTED
      then (if state g = STATE_CONNECTING cfg
            then [CyBle_GapcConnectDevice
                   (if unat (deviceN g) < length (peerAddr g)
                    then Some (peerAddr g ! unat (deviceN g)) else None)]
            else [Scanning_LED_Write LED_OFF, SW2_ClearInterrupt, Wakeup_Interrupt_ClearPending,
                  Wakeup_Interrupt_Start, CySysPmHibernate])
      else [])"
  by (simp add: scan_start_stop_def calls_api_error calls_append UpdateLedState_def)

lemma calls_AppCallback:
  assumes "AppCallback cfg env g ev = Some (g', out)"
  shows "calls out =
    (case ev of
       CYBLE_EVT_STACK_ON \<Rightarrow> calls (stack_on cfg env)
     | CYBLE_EVT_GAPC_SCAN_START_STOP \<Rightarrow> calls (scan_start_stop cfg env g)
     | CYBLE_EVT_GAP_DEVICE_DISCONNECTED r \<Rightarrow> [CyBle_GapcStartScan CYBLE_SCANNING_FAST]
     | CYBLE_EVT_GATT_CONNECT_IND \<Rightarrow> calls (gatt_connect_ind cfg env)
     | CYBLE_EVT_L2CAP_CBFC_RX_CREDIT_IND p \<Rightarrow> calls (rx_credit_ind cfg env p)
     | _ \<Rightarrow> [])"
proof (cases ev)
  case (CYBLE_EVT_GAPC_SCAN_PROGRESS_RESULT r)
  with assms calls_scan_progress_result[of cfg g r g' out] show ?thesis by simp
next
  case (CYBLE_EVT_L2CAP_CBFC_DATA_READ p)
  with assms calls_data_read[of cfg g p] show ?thesis by auto
qed (use assms in \<open>auto simp: calls_api_error\<close>)

lemma calls_send_data_packet:
  "\<exists>payload. calls (snd (send_data_packet cfg env g)) =
     [CyBle_L2capChannelDataWrite (bdHandle (cyBle_connHandle env)) (lCid (l2capParameters g))
        payload (unat (L2CAP_MAX_LEN cfg))]"
  by (cases "fill_loop 0 (unat (L2CAP_MAX_LEN cfg) div 2) (ipv6LoopbackBuffer g) (counter g)")
     (simp add: send_data_packet_def calls_api_error)

lemma calls_run_command:
  assumes "run_command cfg env g uart command = Some (g', out, uart')"
  shows "filter is_credit_grant (calls out) = [] \<and> filter is_connect (calls out) = []"
proof -
  consider "command = 0x63" | "command = 0x76" | "command = 0x64" | "command = 0x73"
    | "command = 0x7A" | "command = 0x31"
    | "command \<notin> {0x63, 0x76, 0x64, 0x73, 0x7A, 0x31}" by auto
  then show ?thesis
  proof cases
    case 5
    with assms show ?thesis
      by (auto simp: run_command_def split: option.splits if_splits)
  next
    case 6
    obtain payload where "calls (snd (send_data_packet cfg env g)) =
       [CyBle_L2capChannelDataWrite (bdHandle (cyBle_connHandle env)) (lCid (l2capParameters g))
          payload (unat (L2CAP_MAX_LEN cfg))]"
      using calls_send_data_packet by blast
    with 6 assms show ?thesis
      by (cases "send_data_packet cfg env g") (auto simp: run_command_def)
  next
    case 7
    with assms show ?thesis
      by (auto simp: run_command_def split: if_splits)
  qed (use assms in \<open>auto simp: run_command_def calls_api_error\<close>)
qed

lemma calls_main_command:
  assumes "main_command cfg env busy g uart = Some (g', out, uart')"
  shows "filter is_credit_grant (calls out) = [] \<and> filter is_connect (calls out) = []"
proof (cases "UART_DEB_UartGetChar uart")
  case (Pair command rest)
  show ?thesis
  proof (cases "command \<noteq> 0 \<or> (custom_command g \<noteq> 0 \<and> busy = 0)")
    case False
    with assms Pair show ?thesis by (auto simp: main_command_def)
  next
    case True
    with assms Pair show ?thesis
      by (cases "custom_command g = 0") (auto simp: main_command_def dest: calls_run_command)
  qed
qed



lemma send_data_packet_calls:
  "calls (snd (send_data_packet cfg env g)) =
     [CyBle_L2capChannelDataWrite (bdHandle (cyBle_connHandle env)) (lCid (l2capParameters g))
        (map (uint16_view (ipv6LoopbackBuffer (fst (send_data_packet cfg env g))))
           [0..<unat (L2CAP_MAX_LEN cfg)])
        (unat (L2CAP_MAX_LEN cfg))]"
  by (cases "fill_loop 0 (unat (L2CAP_MAX_LEN cfg) div 2) (ipv6LoopbackBuffer g) (counter g)")
     (simp add: send_data_packet_def calls_api_error)



lemma log_device_duplicate:
  assumes "i < unat (advDevices g)"
    and "\<forall>k<CYBLE_GAP_BD_ADDR_SIZE. bdAddr (peerAddr g ! i) ! k = peerBdAddr r k"
  shows "fst (log_device cfg g r) = g"
proof -
  have "memcmp (array_view (bdAddr (peerAddr g ! i))) (peerBdAddr r) CYBLE_GAP_BD_ADDR_SIZE = 0"
    using assms(2) by (simp add: memcmp_eq_0_iff array_view_def)
  with assms(1) have "\<not> (\<forall>j. 0 \<le> j \<and> j < unat (advDevices g) \<longrightarrow>
        memcmp (array_view (bdAddr (peerAddr g ! j))) (peerBdAddr r) CYBLE_GAP_BD_ADDR_SIZE \<noteq> 0)"
    by blast
  then have "fst (newDevice_loop (peerAddr g) (peerBdAddr r) (advDevices g) 0) = 0"
    using newDevice_loop_new[of "peerAddr g" "peerBdAddr r" "advDevices g" 0] by blast
  then show ?thesis
    by (cases "newDevice_loop (peerAddr g) (peerBdAddr r) (advDevices g) 0")
       (simp add: log_device_def)
qed

lemma log_device_keeps_logged:
  assumes "j < unat (advDevices g)"
  shows "peerAddr (fst (log_device cfg g r)) ! j = peerAddr g ! j"
  using assms
  by (cases "newDevice_loop (peerAddr g) (peerBdAddr r) (advDevices g) 0")
     (simp add: log_device_def)

lemma AppCallback_registry_frame:
  assumes "AppCallback cfg env g ev = Some (g', out)"
  shows "(\<exists>r. ev = CYBLE_EVT_GAPC_SCAN_PROGRESS_RESULT r \<and> g' = fst (log_device cfg g r)) \<or>
         (peerAddr g' = peerAddr g \<and> advDevices g' = advDevices g)"
proof (cases ev)
  case (CYBLE_EVT_GAPC_SCAN_PROGRESS_RESULT r)
  with assms scan_progress_result_cases[of cfg g r g' out] show ?thesis
    by (metis AppCallback.simps(6) fst_conv)
next
  case (CYBLE_EVT_L2CAP_CBFC_DATA_READ p)
  with assms show ?thesis by (auto simp: data_read_def split: if_splits)
qed (use assms in auto)

lemma registry_ok_initial: "registry_ok cfg (initial_globals cfg)"
  by (simp add: registry_ok_def initial_globals_def registry_def)

lemma take_memcpy:
  "take CYBLE_GAP_BD_ADDR_SIZE (memcpy dst src CYBLE_GAP_BD_ADDR_SIZE) =
     map src [0..<CYBLE_GAP_BD_ADDR_SIZE]"
  by (simp add: memcpy_def)

lemma memcmp_of_take:
  assumes "take n xs = map src [0..<n]"
  shows "memcmp (array_view xs) src n = 0"
proof -
  have "xs ! k = src k" if "k < n" for k
  proof -
    have "xs ! k = take n xs ! k" using that by simp
    also have "\<dots> = src k" using that assms by simp
    finally show ?thesis .
  qed
  then show ?thesis by (simp add: memcmp_eq_0_iff array_view_def)
qed

lemma log_device_registry_ok:
  assumes ok: "registry_ok cfg g"
  shows "registry_ok cfg (fst (log_device cfg g r))"
proof -
  obtain nd dbg where nl: "newDevice_loop (peerAddr g) (peerBdAddr r) (advDevices g) 0 = (nd, dbg)"
    by (cases "newDevice_loop (peerAddr g) (peerBdAddr r) (advDevices g) 0")
  let ?n = "unat (advDevices g)"
  let ?e = "(peerAddr g ! ?n)
              \<lparr>bdAddr := memcpy (bdAddr (peerAddr g ! ?n)) (peerBdAddr r) CYBLE_GAP_BD_ADDR_SIZE,
               type := peerAddrType r\<rparr>"
  show ?thesis
  proof (cases "nd \<noteq> 0 \<and> ?n < CYBLE_MAX_ADV_DEVICES cfg")
    case False
    with nl ok show ?thesis by (auto simp: log_device_def)
  next
    case True
    then have g': "fst (log_device cfg g r) =
        g\<lparr>peerAddr := (peerAddr g)[?n := ?e], advDevices := advDevices g + 1\<rparr>"
      using nl by (simp add: log_device_def)
    from ok have len: "length (peerAddr g) = CYBLE_MAX_ADV_DEVICES cfg"
      and dist: "distinct (registry g)" by (simp_all add: registry_ok_def)
    from True len have n_lt: "?n < length (peerAddr g)" by simp
    have new: "\<forall>j<?n. memcmp (array_view (bdAddr (peerAddr g ! j))) (peerBdAddr r)
                 CYBLE_GAP_BD_ADDR_SIZE \<noteq> 0"
      using newDevice_loop_new[of "peerAddr g" "peerBdAddr r" "advDevices g" 0] nl True by simp
    have fresh: "map (peerBdAddr r) [0..<CYBLE_GAP_BD_ADDR_SIZE] \<notin> set (registry g)"
    proof
      assume "map (peerBdAddr r) [0..<CYBLE_GAP_BD_ADDR_SIZE] \<in> set (registry g)"
      then obtain j where j: "j < ?n"
        and eq: "take CYBLE_GAP_BD_ADDR_SIZE (bdAddr (peerAddr g ! j)) =
                 map (peerBdAddr r) [0..<CYBLE_GAP_BD_ADDR_SIZE]"
        using n_lt by (auto simp: registry_def in_set_conv_nth)
      from memcmp_of_take[OF eq] new j show False by blast
    qed
    show ?thesis
    proof (cases "unat (advDevices g + 1) = ?n + 1")
      case False
      have "unat (advDevices g + 1) = (?n + 1) mod 256"
        by (simp add: unat_word_ariths)
      moreover have "?n < 256" using unsigned_less[of "advDevices g", where 'a = nat] by simp
      ultimately have "unat (advDevices g + 1) = 0" using False
        by (metis Suc_eq_plus1 Suc_lessI mod_less mod_self)
      then show ?thesis using len by (simp add: g' registry_ok_def registry_def)
    next
      case suc: True
      have "take (?n + 1) ((peerAddr g)[?n := ?e]) = take ?n (peerAddr g) @ [?e]"
        using n_lt by (simp add: take_Suc_conv_app_nth)
      then have "registry (fst (log_device cfg g r)) =
          registry g @ [map (peerBdAddr r) [0..<CYBLE_GAP_BD_ADDR_SIZE]]"
        by (simp add: g' registry_def suc take_memcpy)
      with dist fresh len True suc show ?thesis
        by (simp add: registry_ok_def g')
    qed
  qed
qed

lemma registry_ok_frame:
  assumes "peerAddr g' = peerAddr g" and "advDevices g' = advDevices g"
  shows "registry_ok cfg g' = registry_ok cfg g"
  using assms by (simp add: registry_ok_def registry_def)

lemma AppCallback_registry_ok:
  assumes "AppCallback cfg env g ev = Some (g', out)" and "registry_ok cfg g"
  shows "registry_ok cfg g'"
  using AppCallback_registry_frame[OF assms(1)] assms(2)
    log_device_registry_ok[of cfg g] registry_ok_frame[of g' g cfg]
  by auto

lemma run_events_registry_ok:
  assumes "run_events cfg g evs = Some (g', out)" and "registry_ok cfg g"
  shows "registry_ok cfg g'"
  using assms
proof (induction evs arbitrary: g g' out)
  case Nil
  then show ?case by simp
next
  case (Cons e evs)
  obtain env ev where e: "e = (env, ev)" by (cases e)
  from Cons.prems(1) e obtain g1 out1 where
    step: "AppCallback cfg env g ev = Some (g1, out1)"
    by (auto split: option.splits)
  with Cons.prems(1) e obtain out2 where
    rest: "run_events cfg g1 evs = Some (g', out2)"
    by (auto split: option.splits)
  from AppCallback_registry_ok[OF step Cons.prems(2)] Cons.IH[OF rest]
  show ?case by blast
qed

lemma log_device_full:
  assumes "unat (advDevices g) = CYBLE_MAX_ADV_DEVICES cfg"
  shows "fst (log_device cfg g r) = g"
  using assms
  by (cases "newDevice_loop (peerAddr g) (peerBdAddr r) (advDevices g) 0")
     (simp add: log_device_def)

lemma CyBle_Get16ByPtr_low: "(ucast (CyBle_Get16ByPtr mem k) :: uint8) = mem k"
  unfolding CyBle_Get16ByPtr_def
  by (rule bit_word_eqI) (auto simp: bit_simps)

lemma uuid_loop_zero_length_never_returns:
  assumes "uuid_loop r uuid a i sp = Some y"
  shows "\<not> (data r a = 0 \<and> even i \<and> sp = 0 \<and> (\<forall>k. CyBle_Get16ByPtr (data r) k \<noteq> uuid))"
  using assms
proof (induction arbitrary: y rule: uuid_loop.raw_induct[rotated 1, consumes 1])
  case (1 loop r uuid a i sp y)
  show ?case
  proof
    assume inv: "data r a = 0 \<and> even i \<and> sp = 0 \<and> (\<forall>k. CyBle_Get16ByPtr (data r) k \<noteq> uuid)"
    then have "i \<noteq> - 1" by auto
    then have "i < - 1" by (simp add: word_order.not_eq_extremum)
    with inv 1(2) have "loop r uuid a (i + 2) 0 = Some y" by simp
    from 1(1)[OF this] inv show False by simp
  qed
qed

lemma bytes_at_0_3: "bytes_at [0, 3] k = 0 \<or> bytes_at [0, 3] k = 3"
  by (auto simp: bytes_at_def nth_Cons split: nat.splits)

lemma no_uuid_behind_0_3: "CyBle_Get16ByPtr (bytes_at [0, 3]) k \<noteq> 0x1820"
proof
  assume "CyBle_Get16ByPtr (bytes_at [0, 3]) k = 0x1820"
  then have "(ucast (CyBle_Get16ByPtr (bytes_at [0, 3]) k) :: uint8) = ucast (0x1820 :: uint16)"
    by simp
  then have "bytes_at [0, 3] k = 0x20" by (simp add: CyBle_Get16ByPtr_low)
  with bytes_at_0_3[of k] show False by auto
qed

lemmas check_adv_eval =
  CheckAdvPacketForServiceUuid_def field_loop.simps uuid_loop.simps adv_report_def bytes_at_def
  CYBLE_GAP_ADV_INCOMPL_16UUID_def CYBLE_GAP_ADV_COMPL_16UUID_def CyBle_Get16ByPtr_def word_gt_0

lemma check_adv_ipss: "CheckAdvPacketForServiceUuid (adv_report addr [3, 3, 0x20, 0x18] kind)
   CYBLE_UUID_INTERNET_PROTOCOL_SUPPORT_SERVICE = Some 1"
  by (simp add: check_adv_eval CYBLE_UUID_INTERNET_PROTOCOL_SUPPORT_SERVICE_def)

lemma check_adv_other: "CheckAdvPacketForServiceUuid (adv_report addr [2, 1, 6, 3, 3, 0x0F, 0x18] kind)
   CYBLE_UUID_INTERNET_PROTOCOL_SUPPORT_SERVICE = Some 0"
  by (simp add: check_adv_eval CYBLE_UUID_INTERNET_PROTOCOL_SUPPORT_SERVICE_def)

lemma check_adv_ipss_report:
  "CheckAdvPacketForServiceUuid (ipss_report addr kind)
     CYBLE_UUID_INTERNET_PROTOCOL_SUPPORT_SERVICE = Some 1"
  by (simp add: ipss_report_def check_adv_ipss)

lemma peer_of_ipss_report [simp]:
  "peerBdAddr (ipss_report addr kind) = array_view addr"
  "peerAddrType (ipss_report addr kind) = kind"
  by (simp_all add: ipss_report_def adv_report_def)

lemma memcmp_6:
  "memcmp a b 6 = 0 \<longleftrightarrow>
     a 0 = b 0 \<and> a 1 = b 1 \<and> a 2 = b 2 \<and> a 3 = b 3 \<and> a 4 = b 4 \<and> a 5 = b 5"
proof -
  have "k < 6 \<longleftrightarrow> k = 0 \<or> k = 1 \<or> k = 2 \<or> k = 3 \<or> k = 4 \<or> k = 5" for k :: nat
    by arith
  then show ?thesis unfolding memcmp_eq_0_iff by auto
qed

lemma upt_6: "[0..<6] = [0, 1, 2, 3, 4, 5]"
  by (simp add: upt_rec)

lemma replicate_2: "replicate 2 x = [x, x]"
  by (simp add: numeral_2_eq_2)

lemma replicate_6: "replicate 6 x = [x, x, x, x, x, x]"
  by (simp add: eval_nat_numeral)

lemmas registry_eval =
  scan_progress_result_def check_adv_ipss_report log_device_def newDevice_loop.simps
  initial_globals_def example_config_def registry_def memcpy_def array_view_def
  CYBLE_GAP_BD_ADDR_SIZE_def memcmp_6 replicate_2 replicate_6 upt_6

lemma uuid_loop_found: "sp \<noteq> 0 \<Longrightarrow> uuid_loop r uuid a i sp = Some sp"
  by (subst uuid_loop.simps) simp

lemma inner_bound:
  fixes l :: uint8
  assumes "l \<noteq> 0" and "n \<le> 257"
  shows "((of_nat n :: uint32) < ucast l - 1) \<longleftrightarrow> n < unat l - 1"
proof -
  have "unat l < 2 ^ 32" using unsigned_less[of l, where 'a = nat] by simp
  then have u: "unat (ucast l :: uint32) = unat l"
    by (simp add: unsigned_ucast_eq take_bit_nat_eq_self)
  have "unat l \<noteq> 0" using assms(1) by (simp add: unsigned_eq_0_iff)
  with u have nz: "(ucast l :: uint32) \<noteq> 0" by (metis unsigned_0)
  have "unat ((ucast l :: uint32) - 1) = unat l - 1"
    using nz u by (simp add: unat_minus_one)
  moreover have "unat (of_nat n :: uint32) = n"
    using assms(2) by (simp add: unat_of_nat)
  ultimately show ?thesis by (simp add: word_less_nat_alt)
qed

lemma uuid_loop_returns:
  assumes "data r a \<noteq> 0" and "n \<le> 257"
  shows "uuid_loop r uuid a (of_nat n) 0 =
     Some (if \<exists>m. n + 2 * m < unat (data r a) - 1 \<and>
                  CyBle_Get16ByPtr (data r) (a + 2 + of_nat (n + 2 * m)) = uuid
           then 1 else 0)"
  using assms(2)
proof (induction "unat (data r a) - 1 - n" arbitrary: n rule: less_induct)
  case less
  let ?L = "unat (data r a) - 1"
  have L: "?L \<le> 254" using unsigned_less[of "data r a", where 'a = nat] by simp
  show ?case
  proof (cases "n < ?L")
    case False
    then have "\<not> (of_nat n :: uint32) < ucast (data r a) - 1"
      using inner_bound[OF assms(1) less.prems] by simp
    moreover have "\<not> (\<exists>m. n + 2 * m < ?L \<and>
                  CyBle_Get16ByPtr (data r) (a + 2 + of_nat (n + 2 * m)) = uuid)"
      using False by auto
    ultimately show ?thesis by (subst uuid_loop.simps) simp
  next
    case True
    then have enter: "(of_nat n :: uint32) < ucast (data r a) - 1"
      using inner_bound[OF assms(1) less.prems] by simp
    have step: "(of_nat n :: uint32) + 2 = of_nat (n + 2)" by simp
    show ?thesis
    proof (cases "CyBle_Get16ByPtr (data r) (a + 2 + of_nat n) = uuid")
      case hit: True
      have "\<exists>m. n + 2 * m < ?L \<and>
                  CyBle_Get16ByPtr (data r) (a + 2 + of_nat (n + 2 * m)) = uuid"
        using True hit by (intro exI[of _ 0]) simp
      with enter hit show ?thesis
        by (subst uuid_loop.simps) (simp add: uuid_loop_found)
    next
      case miss: False
      have n2: "n + 2 \<le> 257" using True L by simp
      have "?L - (n + 2) < ?L - n" using True by simp
      from less.hyps[OF this n2]
      have ih: "uuid_loop r uuid a (of_nat (n + 2)) 0 =
         Some (if \<exists>m. n + 2 + 2 * m < ?L \<and>
                  CyBle_Get16ByPtr (data r) (a + 2 + of_nat (n + 2 + 2 * m)) = uuid
               then 1 else 0)" .
      have "(\<exists>m. n + 2 * m < ?L \<and>
                  CyBle_Get16ByPtr (data r) (a + 2 + of_nat (n + 2 * m)) = uuid) \<longleftrightarrow>
            (\<exists>m. n + 2 + 2 * m < ?L \<and>
                  CyBle_Get16ByPtr (data r) (a + 2 + of_nat (n + 2 + 2 * m)) = uuid)"
        (is "?lhs = ?rhs")
      proof
        assume ?lhs
        then obtain m where m: "n + 2 * m < ?L"
          "CyBle_Get16ByPtr (data r) (a + 2 + of_nat (n + 2 * m)) = uuid" by blast
        with miss have "m \<noteq> 0" by (cases m) auto
        then obtain m' where "m = Suc m'" by (cases m) auto
        with m show ?rhs by (intro exI[of _ m']) (simp add: add.assoc)
      next
        assume ?rhs
        then obtain m where m: "n + 2 + 2 * m < ?L"
          "CyBle_Get16ByPtr (data r) (a + 2 + of_nat (n + 2 + 2 * m)) = uuid" by blast
        then show ?lhs by (intro exI[of _ "Suc m"]) (simp add: add.assoc)
      qed
      then have iff: "(if ?lhs then 1 else 0) = (if ?rhs then 1 else (0 :: uint32))"
        by simp
      have "uuid_loop r uuid a (of_nat n) 0 = uuid_loop r uuid a (of_nat n + 2) 0"
        by (subst uuid_loop.simps) (simp add: enter miss)
      also have "\<dots> = uuid_loop r uuid a (of_nat (n + 2)) 0"
        by (simp only: step)
      also note ih
      finally show ?thesis by (simp only: iff)
    qed
  qed
qed

lemma code_match_iff:
  "code_match r uuid off \<longleftrightarrow>
     (data r (of_nat (off + 1)) = CYBLE_GAP_ADV_INCOMPL_16UUID \<or>
      data r (of_nat (off + 1)) = CYBLE_GAP_ADV_COMPL_16UUID) \<and>
     (\<exists>m. 2 * m < unat (data r (of_nat off)) - 1 \<and>
          CyBle_Get16ByPtr (data r) (of_nat (off + 2 + 2 * m)) = uuid)"
proof -
  have "m < unat (data r (of_nat off)) div 2 \<longleftrightarrow> 2 * m < unat (data r (of_nat off)) - 1"
    for m by presburger
  then show ?thesis by (auto simp: code_match_def list_ex_iff)
qed

lemma ucast_len: "(ucast (l :: uint8) :: uint32) = of_nat (unat l)"
  by simp

lemma next_test:
  fixes n :: uint8
  assumes "k \<le> 1000"
  shows "((of_nat k :: uint32) < ucast n) \<longleftrightarrow> k < unat n"
proof -
  have "unat n < 2 ^ 32" using unsigned_less[of n, where 'a = nat] by simp
  then have "unat (ucast n :: uint32) = unat n"
    by (simp add: unsigned_ucast_eq take_bit_nat_eq_self)
  moreover have "unat (of_nat k :: uint32) = k" using assms by (simp add: unat_of_nat)
  ultimately show ?thesis by (simp add: word_less_nat_alt)
qed

lemma field_loop_returns:
  assumes "off < unat (dataLen r)"
    and "\<forall>x \<in> set (adv_fields r off). data r (of_nat x) \<noteq> 0"
  shows "field_loop r uuid (of_nat off) 0 =
     Some (if list_ex (code_match r uuid) (adv_fields r off) then 1 else 0)"
  using assms
proof (induction "unat (dataLen r) - off" arbitrary: off rule: less_induct)
  case less
  let ?l = "data r (of_nat off)"
  let ?off' = "off + unat ?l + 1"
  have dl: "unat (dataLen r) \<le> 255" using unsigned_less[of "dataLen r", where 'a = nat] by simp
  have ll: "unat ?l \<le> 255" using unsigned_less[of ?l, where 'a = nat] by simp
  have fields: "adv_fields r off = off # adv_fields r ?off'"
    using less.prems(1) by (subst adv_fields.simps) simp
  with less.prems(2) have nz: "?l \<noteq> 0" by simp
  define ty where "ty = data r (of_nat (off + 1))"
  define hits where "hits \<longleftrightarrow> (\<exists>m. 2 * m < unat ?l - 1 \<and>
                  CyBle_Get16ByPtr (data r) (of_nat (off + 2 + 2 * m)) = uuid)"
  have "uuid_loop r uuid (of_nat off) 0 0 =
     Some (if \<exists>m. 2 * m < unat ?l - 1 \<and>
                  CyBle_Get16ByPtr (data r) (of_nat (off + 2 + 2 * m)) = uuid
           then 1 else 0)"
    using uuid_loop_returns[OF nz, of 0 uuid] by (simp add: ac_simps)
  then have inner: "uuid_loop r uuid (of_nat off) 0 0 = Some (if hits then 1 else 0)"
    by (simp only: hits_def)
  have cm: "code_match r uuid off \<longleftrightarrow>
      (ty = CYBLE_GAP_ADV_INCOMPL_16UUID \<or> ty = CYBLE_GAP_ADV_COMPL_16UUID) \<and> hits"
    by (simp only: code_match_iff ty_def hits_def)
  have tyeq: "data r (of_nat off + 1) = ty" by (simp add: ty_def add.commute)
  define found :: uint32 where "found = (if code_match r uuid off then 1 else 0)"
  have body: "(if data r (of_nat off + 1) = CYBLE_GAP_ADV_INCOMPL_16UUID \<or>
                 data r (of_nat off + 1) = CYBLE_GAP_ADV_COMPL_16UUID
              then uuid_loop r uuid (of_nat off) 0 0 else Some 0) = Some found"
    unfolding tyeq inner found_def cm by simp
  have nxt: "(of_nat off :: uint32) + (ucast ?l + 1) = of_nat ?off'"
    by (simp add: ucast_len del: of_nat_unat)
  have test: "((of_nat ?off' :: uint32) < ucast (dataLen r)) \<longleftrightarrow> ?off' < unat (dataLen r)"
    using dl ll less.prems(1) by (intro next_test) simp
  have unfold: "field_loop r uuid (of_nat off) 0 =
     (if ?off' < unat (dataLen r) \<and> found = 0
      then field_loop r uuid (of_nat ?off') found else Some found)"
    by (subst field_loop.simps) (simp only: body nxt test Option.bind.simps)
  show ?case
  proof (cases "code_match r uuid off")
    case True
    then have "found = 1" by (simp add: found_def)
    with unfold True fields show ?thesis by simp
  next
    case miss: False
    then have f0: "found = 0" by (simp add: found_def)
    show ?thesis
    proof (cases "?off' < unat (dataLen r)")
      case False
      then have "adv_fields r ?off' = []" by (subst adv_fields.simps) simp
      with unfold f0 miss fields False show ?thesis by simp
    next
      case True
      have "unat (dataLen r) - ?off' < unat (dataLen r) - off" using True by simp
      moreover have "\<forall>x \<in> set (adv_fields r ?off'). data r (of_nat x) \<noteq> 0"
        using less.prems(2) fields by simp
      ultimately have "field_loop r uuid (of_nat ?off') 0 =
         Some (if list_ex (code_match r uuid) (adv_fields r ?off') then 1 else 0)"
        using less.hyps True by blast
      with unfold f0 miss fields True show ?thesis by simp
    qed
  qed
qed

lemma code_match_is_spec:
  assumes "data r (of_nat off) \<noteq> 0"
    and "\<not> is_uuid16_list_field r off \<or> odd (unat (data r (of_nat off)))"
  shows "code_match r uuid off \<longleftrightarrow>
         is_uuid16_list_field r off \<and> uuid \<in> set (field_uuid16s r off)"
proof (cases "is_uuid16_list_field r off")
  case False
  with assms(1) show ?thesis
    by (auto simp: code_match_iff is_uuid16_list_field_def unsigned_eq_0_iff Suc_le_eq)
next
  case True
  with assms(2) have odd: "odd (unat (data r (of_nat off)))" by simp
  have "2 * m < unat (data r (of_nat off)) - 1 \<longleftrightarrow> m < (unat (data r (of_nat off)) - 1) div 2"
    for m using odd by presburger
  then have "(\<exists>m. 2 * m < unat (data r (of_nat off)) - 1 \<and>
           CyBle_Get16ByPtr (data r) (of_nat (off + 2 + 2 * m)) = uuid) \<longleftrightarrow>
        uuid \<in> set (field_uuid16s r off)"
    by (auto simp: field_uuid16s_def)
  with True show ?thesis by (auto simp: code_match_iff is_uuid16_list_field_def)
qed









subsection \<open>The advertisement filter\<close>

text \<open>
  \<^bold>\<open>C1\<close> claims that \<open>CheckAdvPacketForServiceUuid\<close> returns a non-zero value exactly when
  a field of type incomplete or complete list of 16-bit UUIDs holds the target value. The
  code breaks this at a field with length byte 0: it takes the byte behind the length
  byte for the field's type, and computes the bound of the inner loop, \<^verbatim>\<open>data[advIndex] - 1u\<close>,
  as \<open>0xFFFFFFFF\<close>. The payload \<^verbatim>\<open>00 03 20 18 00\<close> is an empty field followed by a field
  of length 3 and type 0x20 with the data bytes \<^verbatim>\<open>18 00\<close>: it holds no list of 16-bit
  UUIDs, and the code reports the service 0x1820.
\<close>

theorem zero_length_field_false_match:
  "CheckAdvPacketForServiceUuid (adv_report [] [0, 3, 0x20, 0x18, 0] 0) 0x1820 = Some 1 \<and>
   \<not> report_contains_uuid16 (adv_report [] [0, 3, 0x20, 0x18, 0] 0) 0x1820"
proof
  show "CheckAdvPacketForServiceUuid (adv_report [] [0, 3, 0x20, 0x18, 0] 0) 0x1820 = Some 1"
    by (simp add: check_adv_eval)
  show "\<not> report_contains_uuid16 (adv_report [] [0, 3, 0x20, 0x18, 0] 0) 0x1820"
    by (simp add: report_contains_uuid16_def adv_fields.simps is_uuid16_list_field_def
        field_uuid16s_def adv_report_def bytes_at_def
        CYBLE_GAP_ADV_INCOMPL_16UUID_def CYBLE_GAP_ADV_COMPL_16UUID_def)
qed

text \<open>
  \<^bold>\<open>C10\<close> claims that \<open>CheckAdvPacketForServiceUuid\<close> returns for every report, also when a
  length byte is 0. With the payload \<^verbatim>\<open>00 03\<close> the inner loop runs with the bound
  \<open>0xFFFFFFFF\<close>, which the even values of \<open>i\<close> never reach (\<open>i\<close> wraps from \<open>0xFFFFFFFE\<close> to
  0); it reads 16-bit values from behind the report and ends only when one of them is the
  UUID. In memory that holds no such value the function does not return.
\<close>

theorem zero_length_uuid_field_never_returns:
  "CheckAdvPacketForServiceUuid (adv_report [] [0, 3] 0) 0x1820 = None"
proof -
  let ?r = "adv_report [] [0, 3] 0"
  have "uuid_loop ?r 0x1820 0 0 0 \<noteq> Some y" for y
  proof
    assume "uuid_loop ?r 0x1820 0 0 0 = Some y"
    from uuid_loop_zero_length_never_returns[OF this] no_uuid_behind_0_3
    show False by (simp add: adv_report_def bytes_at_def)
  qed
  then have "uuid_loop ?r 0x1820 0 0 0 = None" by (cases "uuid_loop ?r 0x1820 0 0 0") auto
  moreover have "data ?r (0 + 1) = CYBLE_GAP_ADV_COMPL_16UUID"
    by (simp add: adv_report_def bytes_at_def CYBLE_GAP_ADV_COMPL_16UUID_def)
  ultimately show ?thesis
    unfolding CheckAdvPacketForServiceUuid_def
    by (subst field_loop.simps) simp
qed

text \<open>
  Where the defect is not met the filter does what the two claims say. On a report with a
  non-empty payload whose fields all have a non-zero length byte it returns, with 1 or 0.
  When in addition every list of 16-bit UUIDs holds an even number of data bytes, it
  returns 1 exactly when the report contains the UUID in such a list. On an empty payload
  the body of the loop runs once, on the bytes behind the report.
\<close>

lemma check_adv_returns_on_nonempty_fields:
  assumes "nonempty_fields r"
  shows "CheckAdvPacketForServiceUuid r uuid =
     Some (if list_ex (code_match r uuid) (adv_fields r 0) then 1 else 0)"
proof -
  from assms have "dataLen r \<noteq> 0" by (simp add: nonempty_fields_def)
  then have "0 < unat (dataLen r)" by (simp add: unat_gt_0)
  moreover from assms have "\<forall>x \<in> set (adv_fields r 0). data r (of_nat x) \<noteq> 0"
    by (simp add: nonempty_fields_def list_all_iff)
  ultimately show ?thesis
    using field_loop_returns[of 0 r uuid] by (simp add: CheckAdvPacketForServiceUuid_def)
qed

lemma check_adv_matches_claim_on_wellformed:
  assumes "nonempty_fields r" and "even_uuid_lists r"
  shows "CheckAdvPacketForServiceUuid r uuid =
     Some (if report_contains_uuid16 r uuid then 1 else 0)"
proof -
  have "code_match r uuid off \<longleftrightarrow>
         is_uuid16_list_field r off \<and> uuid \<in> set (field_uuid16s r off)"
    if "off \<in> set (adv_fields r 0)" for off
    using that assms code_match_is_spec[of r off uuid]
    by (auto simp: nonempty_fields_def even_uuid_lists_def list_all_iff)
  then have "list_ex (code_match r uuid) (adv_fields r 0) \<longleftrightarrow> report_contains_uuid16 r uuid"
    by (auto simp: report_contains_uuid16_def list_ex_iff)
  with check_adv_returns_on_nonempty_fields[OF assms(1), of uuid] show ?thesis by simp
qed

lemma check_adv_empty_report:
  assumes "dataLen r = 0"
  shows "CheckAdvPacketForServiceUuid r uuid =
     (if data r 1 = CYBLE_GAP_ADV_INCOMPL_16UUID \<or> data r 1 = CYBLE_GAP_ADV_COMPL_16UUID
      then uuid_loop r uuid 0 0 0 else Some 0)"
  unfolding CheckAdvPacketForServiceUuid_def
  by (subst field_loop.simps) (cases "uuid_loop r uuid 0 0 0"; simp add: assms)

lemma check_adv_wellformed_example:
  "nonempty_fields (adv_report [] [2, 1, 6, 3, 3, 0x20, 0x18] 0) \<and>
   even_uuid_lists (adv_report [] [2, 1, 6, 3, 3, 0x20, 0x18] 0) \<and>
   report_contains_uuid16 (adv_report [] [2, 1, 6, 3, 3, 0x20, 0x18] 0) 0x1820 \<and>
   CheckAdvPacketForServiceUuid (adv_report [] [2, 1, 6, 3, 3, 0x20, 0x18] 0) 0x1820 = Some 1"
proof -
  have wf: "nonempty_fields (adv_report [] [2, 1, 6, 3, 3, 0x20, 0x18] 0)"
    by (simp add: nonempty_fields_def adv_fields.simps adv_report_def bytes_at_def)
  have ev: "even_uuid_lists (adv_report [] [2, 1, 6, 3, 3, 0x20, 0x18] 0)"
    by (simp add: even_uuid_lists_def adv_fields.simps is_uuid16_list_field_def
        adv_report_def bytes_at_def
        CYBLE_GAP_ADV_INCOMPL_16UUID_def CYBLE_GAP_ADV_COMPL_16UUID_def)
  have c: "report_contains_uuid16 (adv_report [] [2, 1, 6, 3, 3, 0x20, 0x18] 0) 0x1820"
    by (simp add: report_contains_uuid16_def adv_fields.simps is_uuid16_list_field_def
        field_uuid16s_def adv_report_def bytes_at_def CyBle_Get16ByPtr_def
        CYBLE_GAP_ADV_INCOMPL_16UUID_def CYBLE_GAP_ADV_COMPL_16UUID_def)
  from check_adv_matches_claim_on_wellformed[OF wf ev] c wf ev
  show ?thesis by simp
qed

text \<open>Each run of the outer loop's body moves \<open>advIndex\<close> forward by at least 1 and at most
  256, without wrapping while \<open>advIndex\<close> is below 256.\<close>

lemma advIndex_step:
  fixes l :: uint8
  shows "1 \<le> unat (ucast l + 1 :: uint32) \<and> unat (ucast l + 1 :: uint32) \<le> 256"
proof -
  have "unat l < 256" using unsigned_less[of l, where 'a = nat] by simp
  moreover have "(ucast l + 1 :: uint32) = of_nat (unat l + 1)" by simp
  ultimately show ?thesis by (simp only: unat_of_nat) simp
qed

subsection \<open>The registry of discovered peers\<close>

text \<open>
  \<^bold>\<open>C4.\<close> After every sequence of events dispatched from the start-up state, the address
  bytes of the first \<open>advDevices\<close> entries of \<open>peerAddr\<close> are pairwise different and
  \<open>advDevices\<close> is at most \<open>CYBLE_MAX_ADV_DEVICES\<close>; when the registry is full, no event
  changes \<open>peerAddr\<close> or \<open>advDevices\<close>: a further sighting is not added.
\<close>

theorem registry_unique_and_bounded:
  assumes "run_events cfg (initial_globals cfg) evs = Some (g, out)"
  shows "distinct (registry g) \<and>
         unat (advDevices g) \<le> CYBLE_MAX_ADV_DEVICES cfg \<and>
         (\<forall>env ev g' out'.
            unat (advDevices g) = CYBLE_MAX_ADV_DEVICES cfg \<and>
            AppCallback cfg env g ev = Some (g', out') \<longrightarrow>
              peerAddr g' = peerAddr g \<and> advDevices g' = advDevices g)"
proof -
  from run_events_registry_ok[OF assms registry_ok_initial]
  have "registry_ok cfg g" .
  then have "distinct (registry g)" "unat (advDevices g) \<le> CYBLE_MAX_ADV_DEVICES cfg"
    by (simp_all add: registry_ok_def)
  moreover have "peerAddr g' = peerAddr g \<and> advDevices g' = advDevices g"
    if "unat (advDevices g) = CYBLE_MAX_ADV_DEVICES cfg"
      and "AppCallback cfg env g ev = Some (g', out')" for env ev g' out'
    using AppCallback_registry_frame[OF that(2)] log_device_full[OF that(1)] by auto
  ultimately show ?thesis by blast
qed

lemma three_sightings:
  "\<exists>g out.
     run_events example_config (initial_globals example_config)
       [(scanning_env, CYBLE_EVT_GAPC_SCAN_PROGRESS_RESULT
           (ipss_report [0x01, 0xEE, 0xDD, 0xCC, 0xBB, 0xAA] 0)),
        (scanning_env, CYBLE_EVT_GAPC_SCAN_PROGRESS_RESULT
           (ipss_report [0x01, 0xEE, 0xDD, 0xCC, 0xBB, 0xAA] 1)),
        (scanning_env, CYBLE_EVT_GAPC_SCAN_PROGRESS_RESULT
           (ipss_report [0x02, 0xEE, 0xDD, 0xCC, 0xBB, 0xAA] 0))] = Some (g, out) \<and>
     registry g = [[0x01, 0xEE, 0xDD, 0xCC, 0xBB, 0xAA], [0x02, 0xEE, 0xDD, 0xCC, 0xBB, 0xAA]] \<and>
     advDevices g = 2"
  by (simp add: registry_eval)

text \<open>The scenario of the specification: AA:BB:CC:DD:EE:01 is sighted twice and logged once;
  a second device fills the registry of the example configuration.\<close>

theorem registry_unique_and_bounded_witness:
  "\<exists>g out.
     run_events example_config (initial_globals example_config)
       [(scanning_env, CYBLE_EVT_GAPC_SCAN_PROGRESS_RESULT
           (ipss_report [0x01, 0xEE, 0xDD, 0xCC, 0xBB, 0xAA] 0)),
        (scanning_env, CYBLE_EVT_GAPC_SCAN_PROGRESS_RESULT
           (ipss_report [0x01, 0xEE, 0xDD, 0xCC, 0xBB, 0xAA] 1)),
        (scanning_env, CYBLE_EVT_GAPC_SCAN_PROGRESS_RESULT
           (ipss_report [0x02, 0xEE, 0xDD, 0xCC, 0xBB, 0xAA] 0))] = Some (g, out) \<and>
     registry g = [[0x01, 0xEE, 0xDD, 0xCC, 0xBB, 0xAA], [0x02, 0xEE, 0xDD, 0xCC, 0xBB, 0xAA]] \<and>
     distinct (registry g) \<and>
     unat (advDevices g) \<le> CYBLE_MAX_ADV_DEVICES example_config"
proof -
  from three_sightings obtain g out where
    run: "run_events example_config (initial_globals example_config)
       [(scanning_env, CYBLE_EVT_GAPC_SCAN_PROGRESS_RESULT
           (ipss_report [0x01, 0xEE, 0xDD, 0xCC, 0xBB, 0xAA] 0)),
        (scanning_env, CYBLE_EVT_GAPC_SCAN_PROGRESS_RESULT
           (ipss_report [0x01, 0xEE, 0xDD, 0xCC, 0xBB, 0xAA] 1)),
        (scanning_env, CYBLE_EVT_GAPC_SCAN_PROGRESS_RESULT
           (ipss_report [0x02, 0xEE, 0xDD, 0xCC, 0xBB, 0xAA] 0))] = Some (g, out)"
    and reg: "registry g =
       [[0x01, 0xEE, 0xDD, 0xCC, 0xBB, 0xAA], [0x02, 0xEE, 0xDD, 0xCC, 0xBB, 0xAA]]"
    by blast
  from registry_unique_and_bounded[OF run]
  have "distinct (registry g) \<and> unat (advDevices g) \<le> CYBLE_MAX_ADV_DEVICES example_config"
    by blast
  with run reg show ?thesis by blast
qed

text \<open>
  \<^bold>\<open>C9.\<close> A report that passes the filter and whose six address bytes equal those of a
  logged entry leaves all globals as they are, whatever address kind it carries and
  whatever kind the entry has: the comparison reads \<open>bdAddr\<close> only. And no event changes
  an entry below \<open>advDevices\<close>, so the kind stored when the entry was created stays.
\<close>

theorem duplicate_detection_ignores_address_kind:
  "(CheckAdvPacketForServiceUuid r CYBLE_UUID_INTERNET_PROTOCOL_SUPPORT_SERVICE = Some found \<and>
    found \<noteq> 0 \<and> i < unat (advDevices g) \<and>
    (\<forall>k<CYBLE_GAP_BD_ADDR_SIZE. bdAddr (peerAddr g ! i) ! k = peerBdAddr r k) \<longrightarrow>
      (\<exists>out. AppCallback cfg env g (CYBLE_EVT_GAPC_SCAN_PROGRESS_RESULT r) = Some (g, out))) \<and>
   (AppCallback cfg env g ev = Some (g', out') \<and> j < unat (advDevices g) \<longrightarrow>
      peerAddr g' ! j = peerAddr g ! j)"
proof (intro conjI impI)
  assume a: "CheckAdvPacketForServiceUuid r CYBLE_UUID_INTERNET_PROTOCOL_SUPPORT_SERVICE = Some found \<and>
    found \<noteq> 0 \<and> i < unat (advDevices g) \<and>
    (\<forall>k<CYBLE_GAP_BD_ADDR_SIZE. bdAddr (peerAddr g ! i) ! k = peerBdAddr r k)"
  then have "fst (log_device cfg g r) = g" using log_device_duplicate by blast
  with a show "\<exists>out. AppCallback cfg env g (CYBLE_EVT_GAPC_SCAN_PROGRESS_RESULT r) = Some (g, out)"
    by (cases "log_device cfg g r") (simp add: scan_progress_result_def)
next
  assume a: "AppCallback cfg env g ev = Some (g', out') \<and> j < unat (advDevices g)"
  with AppCallback_registry_frame[of cfg env g ev g' out'] log_device_keeps_logged[of j g cfg]
  show "peerAddr g' ! j = peerAddr g ! j" by auto
qed

text \<open>The logged device has a public address (kind 0); it is sighted with a random address
  (kind 1) of the same bytes.\<close>

theorem duplicate_detection_ignores_address_kind_witness:
  "(\<exists>out. AppCallback example_config scanning_env one_device_logged
            (CYBLE_EVT_GAPC_SCAN_PROGRESS_RESULT
               (ipss_report [0x01, 0xEE, 0xDD, 0xCC, 0xBB, 0xAA] 1)) =
          Some (one_device_logged, out)) \<and>
   type (peerAddr one_device_logged ! 0) = 0 \<and>
   peerAddrType (ipss_report [0x01, 0xEE, 0xDD, 0xCC, 0xBB, 0xAA] 1) = 1"
proof -
  have same: "\<forall>k<CYBLE_GAP_BD_ADDR_SIZE.
      bdAddr (peerAddr one_device_logged ! 0) ! k =
      peerBdAddr (ipss_report [0x01, 0xEE, 0xDD, 0xCC, 0xBB, 0xAA] 1) k"
    by (simp add: one_device_logged_def array_view_def)
  have logged: "0 < unat (advDevices one_device_logged)"
    by (simp add: one_device_logged_def)
  from duplicate_detection_ignores_address_kind[of
      "ipss_report [0x01, 0xEE, 0xDD, 0xCC, 0xBB, 0xAA] 1" 1 0 one_device_logged
      example_config scanning_env] check_adv_ipss_report same logged
  have "\<exists>out. AppCallback example_config scanning_env one_device_logged
            (CYBLE_EVT_GAPC_SCAN_PROGRESS_RESULT
               (ipss_report [0x01, 0xEE, 0xDD, 0xCC, 0xBB, 0xAA] 1)) =
          Some (one_device_logged, out)"
    by simp
  then show ?thesis by (simp add: one_device_logged_def)
qed

subsection \<open>Channel negotiation\<close>

text \<open>
  \<^bold>\<open>C8.\<close> The dispatch of \<^verbatim>\<open>CYBLE_EVT_GATT_CONNECT_IND\<close> returns for every state of the
  application and of the component, leaves the globals as they are, and makes exactly one
  call: the channel-open request \<^verbatim>\<open>CyBle_L2capCbfcConnectReq\<close> on the connection's handle,
  with the IPSP multiplexer on both sides and the three local parameters MTU, MPS and the
  initial credits \<open>LE_DATA_CREDITS_IPSP\<close>. No command is involved.
\<close>

theorem channel_open_request_on_gatt_connect:
  "\<exists>out. AppCallback cfg env g CYBLE_EVT_GATT_CONNECT_IND = Some (g, out) \<and>
     calls out =
       [CyBle_L2capCbfcConnectReq (bdHandle (cyBle_connHandle env))
          CYBLE_L2CAP_PSM_LE_PSM_IPSP CYBLE_L2CAP_PSM_LE_PSM_IPSP
          \<lparr>mtu = CYBLE_L2CAP_MTU cfg, mps = CYBLE_L2CAP_MPS cfg,
           credit = LE_DATA_CREDITS_IPSP cfg\<rparr>]"
  by (simp add: calls_gatt_connect_ind)

text \<open>
  \<^bold>\<open>C2\<close> (as the code has it). The dispatch of \<^verbatim>\<open>CYBLE_EVT_L2CAP_CBFC_CONN_CNF\<close> stores the
  confirmation and sets \<open>l2capConnected\<close>, whatever its \<open>response\<close> field carries; the
  response appears in the debug line only, and no call is made (the channel is not closed).
\<close>

theorem conn_cnf_marks_channel_open:
  "AppCallback cfg env g (CYBLE_EVT_L2CAP_CBFC_CONN_CNF p) =
     Some (g\<lparr>l2capParameters := p, l2capConnected := True\<rparr>,
           [DBG_PRINTF ''CYBLE_EVT_L2CAP_CBFC_CONN_CNF: bdHandle=%d, lCid=%d, responce=%d''
              [unat (cnf_bdHandle p), unat (lCid p), unat (response p)],
            DBG_PRINTF '', connParam: mtu=%d, mps=%d, credit=%d''
              [unat (mtu (connParam p)), unat (mps (connParam p)), unat (credit (connParam p))]]) \<and>
   calls [DBG_PRINTF ''CYBLE_EVT_L2CAP_CBFC_CONN_CNF: bdHandle=%d, lCid=%d, responce=%d''
              [unat (cnf_bdHandle p), unat (lCid p), unat (response p)],
            DBG_PRINTF '', connParam: mtu=%d, mps=%d, credit=%d''
              [unat (mtu (connParam p)), unat (mps (connParam p)), unat (credit (connParam p))]] = []"
  by simp

text \<open>The claim as stated fails: a confirmation that carries the error response 2 on a
  channel that is not open leaves \<open>l2capConnected\<close> true.\<close>

theorem conn_cnf_error_response_counterexample:
  "response \<lparr>cnf_bdHandle = 4, lCid = 0x40, response = 2,
              connParam = \<lparr>mtu = 0, mps = 0, credit = 0\<rparr>\<rparr> \<noteq> 0 \<and>
   \<not> l2capConnected (initial_globals example_config) \<and>
   map_option (\<lambda>(g, out). (l2capConnected g, calls out))
     (AppCallback example_config (example_env CYBLE_STATE_CONNECTED)
        (initial_globals example_config)
        (CYBLE_EVT_L2CAP_CBFC_CONN_CNF
           \<lparr>cnf_bdHandle = 4, lCid = 0x40, response = 2,
            connParam = \<lparr>mtu = 0, mps = 0, credit = 0\<rparr>\<rparr>)) = Some (True, [])"
  by (simp add: initial_globals_def)

subsection \<open>Connection lifecycle\<close>

text \<open>
  \<^bold>\<open>C6.\<close> The dispatch of \<^verbatim>\<open>CYBLE_EVT_GAP_DEVICE_DISCONNECTED\<close> returns for every state of
  the application and of the component and for every reason code, leaves the globals as
  they are, and makes exactly one call: \<^verbatim>\<open>CyBle_GapcStartScan(CYBLE_SCANNING_FAST)\<close>.
  Discovery is re-started inside the dispatch of the disconnect event; no console input
  takes part.
\<close>

theorem disconnect_restarts_scan:
  "\<exists>out. AppCallback cfg env g (CYBLE_EVT_GAP_DEVICE_DISCONNECTED reason) = Some (g, out) \<and>
     calls out = [CyBle_GapcStartScan CYBLE_SCANNING_FAST]"
  by (simp add: calls_api_error)

text \<open>
  \<^bold>\<open>C7.\<close> Command 'c' requests stop-scan and records \<open>STATE_CONNECTING\<close>; it does not
  connect. \<^verbatim>\<open>CyBle_GapcConnectDevice\<close> is called only by the dispatch of
  \<^verbatim>\<open>CYBLE_EVT_GAPC_SCAN_START_STOP\<close>, and only when the component reports
  \<open>CYBLE_STATE_DISCONNECTED\<close> (so it is not scanning) and \<open>state\<close> is \<open>STATE_CONNECTING\<close>;
  the device is \<open>peerAddr[deviceN]\<close>. In that situation the call is made. No command of
  the console calls it.
\<close>

theorem connect_only_after_scan_stopped:
  "(custom_command g = 0 \<longrightarrow>
      main_command cfg env busy g (0x63 # uart) =
        Some (g\<lparr>state := STATE_CONNECTING cfg\<rparr>, [Call CyBle_GapcStopScan], uart)) \<and>
   (AppCallback cfg env g ev = Some (g', out) \<and> CyBle_GapcConnectDevice a \<in> set (calls out) \<longrightarrow>
      ev = CYBLE_EVT_GAPC_SCAN_START_STOP \<and>
      CyBle_GetState env = CYBLE_STATE_DISCONNECTED \<and> CyBle_GetState env \<noteq> CYBLE_STATE_SCANNING \<and>
      state g = STATE_CONNECTING cfg \<and>
      a = (if unat (deviceN g) < length (peerAddr g)
           then Some (peerAddr g ! unat (deviceN g)) else None)) \<and>
   (CyBle_GetState env = CYBLE_STATE_DISCONNECTED \<and> state g = STATE_CONNECTING cfg \<longrightarrow>
      (\<exists>out. AppCallback cfg env g CYBLE_EVT_GAPC_SCAN_START_STOP = Some (g, out) \<and>
         calls out =
           [CyBle_GapcConnectDevice
              (if unat (deviceN g) < length (peerAddr g)
               then Some (peerAddr g ! unat (deviceN g)) else None)])) \<and>
   (main_command cfg env busy g uart0 = Some (g2, out2, uart2) \<longrightarrow>
      CyBle_GapcConnectDevice a \<notin> set (calls out2))"
proof (intro conjI impI)
  assume "custom_command g = 0"
  then show "main_command cfg env busy g (0x63 # uart) =
        Some (g\<lparr>state := STATE_CONNECTING cfg\<rparr>, [Call CyBle_GapcStopScan], uart)"
    by (simp add: main_command_def run_command_def)
next
  assume a: "AppCallback cfg env g ev = Some (g', out) \<and> CyBle_GapcConnectDevice a \<in> set (calls out)"
  then have c: "CyBle_GapcConnectDevice a \<in> set
     (case ev of
       CYBLE_EVT_STACK_ON \<Rightarrow> calls (stack_on cfg env)
     | CYBLE_EVT_GAPC_SCAN_START_STOP \<Rightarrow> calls (scan_start_stop cfg env g)
     | CYBLE_EVT_GAP_DEVICE_DISCONNECTED r \<Rightarrow> [CyBle_GapcStartScan CYBLE_SCANNING_FAST]
     | CYBLE_EVT_GATT_CONNECT_IND \<Rightarrow> calls (gatt_connect_ind cfg env)
     | CYBLE_EVT_L2CAP_CBFC_RX_CREDIT_IND p \<Rightarrow> calls (rx_credit_ind cfg env p)
     | _ \<Rightarrow> [])"
    using calls_AppCallback[of cfg env g ev g' out] by simp
  then have ev: "ev = CYBLE_EVT_GAPC_SCAN_START_STOP"
    by (cases ev)
       (simp_all add: calls_stack_on calls_gatt_connect_ind calls_rx_credit_ind split: if_splits)
  with c have m: "CyBle_GapcConnectDevice a \<in> set (calls (scan_start_stop cfg env g))" by simp
  show "ev = CYBLE_EVT_GAPC_SCAN_START_STOP" by (rule ev)
  from m show "CyBle_GetState env = CYBLE_STATE_DISCONNECTED"
    by (simp add: calls_scan_start_stop split: if_splits)
  then show "CyBle_GetState env \<noteq> CYBLE_STATE_SCANNING" by simp
  from m show "state g = STATE_CONNECTING cfg"
    by (simp add: calls_scan_start_stop split: if_splits)
  from m show "a = (if unat (deviceN g) < length (peerAddr g)
           then Some (peerAddr g ! unat (deviceN g)) else None)"
    by (simp add: calls_scan_start_stop split: if_splits)
next
  assume "CyBle_GetState env = CYBLE_STATE_DISCONNECTED \<and> state g = STATE_CONNECTING cfg"
  then show "\<exists>out. AppCallback cfg env g CYBLE_EVT_GAPC_SCAN_START_STOP = Some (g, out) \<and>
         calls out =
           [CyBle_GapcConnectDevice
              (if unat (deviceN g) < length (peerAddr g)
               then Some (peerAddr g ! unat (deviceN g)) else None)]"
    by (simp add: calls_scan_start_stop)
next
  assume "main_command cfg env busy g uart0 = Some (g2, out2, uart2)"
  then have "filter is_connect (calls out2) = []" using calls_main_command by blast
  then have "\<forall>c \<in> set (calls out2). \<not> is_connect c" by (simp add: filter_empty_conv)
  then show "CyBle_GapcConnectDevice a \<notin> set (calls out2)" by fastforce
qed

theorem connect_only_after_scan_stopped_witness:
  "main_command example_config scanning_env 0 (initial_globals example_config) [0x63] =
     Some ((initial_globals example_config)\<lparr>state := STATE_CONNECTING example_config\<rparr>,
           [Call CyBle_GapcStopScan], []) \<and>
   (\<exists>out. AppCallback example_config (example_env CYBLE_STATE_DISCONNECTED)
            ((initial_globals example_config)\<lparr>state := STATE_CONNECTING example_config\<rparr>)
            CYBLE_EVT_GAPC_SCAN_START_STOP =
          Some ((initial_globals example_config)\<lparr>state := STATE_CONNECTING example_config\<rparr>, out) \<and>
          calls out =
            [CyBle_GapcConnectDevice (Some \<lparr>bdAddr = [0, 0, 0, 0, 0, 0], type = 0\<rparr>)])"
proof -
  have idle: "custom_command (initial_globals example_config) = 0"
    by (simp add: initial_globals_def)
  have ready: "CyBle_GetState (example_env CYBLE_STATE_DISCONNECTED) = CYBLE_STATE_DISCONNECTED \<and>
      state ((initial_globals example_config)\<lparr>state := STATE_CONNECTING example_config\<rparr>) =
        STATE_CONNECTING example_config"
    by (simp add: example_env_def)
  from connect_only_after_scan_stopped[of "initial_globals example_config" example_config
      scanning_env 0 "[]"] idle
  have c: "main_command example_config scanning_env 0 (initial_globals example_config) [0x63] =
     Some ((initial_globals example_config)\<lparr>state := STATE_CONNECTING example_config\<rparr>,
           [Call CyBle_GapcStopScan], [])"
    by simp
  from connect_only_after_scan_stopped[of
      "(initial_globals example_config)\<lparr>state := STATE_CONNECTING example_config\<rparr>"
      example_config "example_env CYBLE_STATE_DISCONNECTED"] ready
  have "\<exists>out. AppCallback example_config (example_env CYBLE_STATE_DISCONNECTED)
            ((initial_globals example_config)\<lparr>state := STATE_CONNECTING example_config\<rparr>)
            CYBLE_EVT_GAPC_SCAN_START_STOP =
          Some ((initial_globals example_config)\<lparr>state := STATE_CONNECTING example_config\<rparr>, out) \<and>
          calls out =
            [CyBle_GapcConnectDevice
               (if unat (deviceN ((initial_globals example_config)
                           \<lparr>state := STATE_CONNECTING example_config\<rparr>))
                   < length (peerAddr ((initial_globals example_config)
                           \<lparr>state := STATE_CONNECTING example_config\<rparr>))
                then Some (peerAddr ((initial_globals example_config)
                           \<lparr>state := STATE_CONNECTING example_config\<rparr>)
                       ! unat (deviceN ((initial_globals example_config)
                           \<lparr>state := STATE_CONNECTING example_config\<rparr>)))
                else None)]"
    by blast
  then have "\<exists>out. AppCallback example_config (example_env CYBLE_STATE_DISCONNECTED)
            ((initial_globals example_config)\<lparr>state := STATE_CONNECTING example_config\<rparr>)
            CYBLE_EVT_GAPC_SCAN_START_STOP =
          Some ((initial_globals example_config)\<lparr>state := STATE_CONNECTING example_config\<rparr>, out) \<and>
          calls out =
            [CyBle_GapcConnectDevice (Some \<lparr>bdAddr = [0, 0, 0, 0, 0, 0], type = 0\<rparr>)]"
    by (simp add: initial_globals_def example_config_def CYBLE_GAP_BD_ADDR_SIZE_def
        replicate_2 replicate_6)
  with c show ?thesis by blast
qed

subsection \<open>Receive-credit replenishment\<close>




subsection \<open>The transfer loop\<close>




end
